theory Spec2Isabelle
  imports Complex_Main "HOL-Library.Sublist"
begin

section \<open>Values of the host language\<close>

text \<open>
  The condition checks of \<^verbatim>\<open>recipes/conditions.ts\<close> read activity fields dynamically
  (\<^verbatim>\<open>activity[prop]\<close>), so an activity is a map from property names to values. A
  number held by a value is finite, and \<open>JNum x\<close> is the number whose exact value is \<open>x\<close>;
  the arithmetic on numbers, with its rounding to doubles, is in the next section. A
  \<^verbatim>\<open>Date\<close> is its count of milliseconds since the epoch.
\<close>

datatype jsval =
    JNull
  | JBool bool
  | JNum real
  | JStr string
  | JDate int
  | JArr "jsval list"
  | JObj "(string \<times> jsval) list"

text \<open>A property that is not set reads as \<^verbatim>\<open>undefined\<close>: \<open>None\<close>.\<close>

type_synonym StravaActivity = "string \<Rightarrow> jsval option"

text \<open>
  The operators of \<^verbatim>\<open>RecipeOperator\<close> (declared in \<^verbatim>\<open>recipes/types\<close>): the seven the
  checks compare against.
\<close>

datatype RecipeOperator =
  Equal | NotEqual | Like | NotLike | Approximate | GreaterThan | LessThan

record RecipeCondition =
  property :: string
  operator :: RecipeOperator
  cvalue :: jsval

text \<open>
  \<open>InvalidOperator\<close> is the \<^verbatim>\<open>throw new Error(`Invalid operator ${op} for ${prop}`)\<close> of
  the source; \<open>TypeError\<close> is the exception of the runtime on a property read of
  \<^verbatim>\<open>undefined\<close>. \<open>IllTyped\<close> marks a field whose value does not have the type that
  \<^verbatim>\<open>StravaActivity\<close> declares for it (a string where a number is read, say): what the
  coercions of the runtime make of it is not modelled.
\<close>

datatype error = InvalidOperator RecipeOperator string | TypeError | IllTyped

subsection \<open>Nil and truthiness\<close>

definition isNil :: "jsval option \<Rightarrow> bool" where
  "isNil v = (v = None \<or> v = Some JNull)"

fun truthy :: "jsval option \<Rightarrow> bool" where
  "truthy None = False"
| "truthy (Some JNull) = False"
| "truthy (Some (JBool b)) = b"
| "truthy (Some (JNum x)) = (x \<noteq> 0)"
| "truthy (Some (JStr s)) = (s \<noteq> [])"
| "truthy (Some (JDate d)) = True"
| "truthy (Some (JArr xs)) = True"
| "truthy (Some (JObj kvs)) = True"

section \<open>Numbers\<close>

text \<open>
  A number of the program is a double: \<^verbatim>\<open>NaN\<close>, an infinity, or a finite value, which
  is a real of the form \<open>m * 2^e\<close> with \<open>\<bar>m\<bar> < 2^53\<close> and \<open>-1074 \<le> e\<close>, below \<open>2^1024\<close> in
  magnitude. The sign of zero is not kept: no check divides, and every comparison and
  rendering that the checks use treats the two zeros alike.
\<close>

datatype number = NaN | Fin real | PosInf | NegInf

definition pow2 :: "int \<Rightarrow> real" where
  "pow2 e = (if 0 \<le> e then 2 ^ nat e else 1 / 2 ^ nat (- e))"

text \<open>The nearest integer, the even one of two.\<close>

definition round_even :: "real \<Rightarrow> int" where
  "round_even y =
     (let f = \<lfloor>y\<rfloor>; d = y - of_int f in
      if d < 1 / 2 then f else if 1 / 2 < d then f + 1 else if even f then f else f + 1)"

text \<open>The exponent \<open>k\<close> with \<open>2^k \<le> \<bar>x\<bar> < 2^(k+1)\<close>, for \<open>x\<close> other than 0.\<close>

definition binade :: "real \<Rightarrow> int" where
  "binade x = \<lfloor>log 2 \<bar>x\<bar>\<rfloor>"

text \<open>
  \<open>fl x\<close> is the double that an operation with the exact result \<open>x\<close> returns, and the
  double that a literal with the value \<open>x\<close> denotes: \<open>x\<close> rounded to 53 significant
  bits (to a multiple of \<open>2^-1074\<close> in the subnormal range), to the nearest, the even one
  of two; a result that reaches \<open>2^1024\<close> is an infinity.
\<close>

definition fl :: "real \<Rightarrow> number" where
  "fl x =
     (if x = 0 then Fin 0
      else
        let e = max (binade x - 52) (- 1074);
            y = of_int (round_even (x / pow2 e)) * pow2 e
        in if pow2 1024 \<le> \<bar>y\<bar> then (if 0 < x then PosInf else NegInf) else Fin y)"

text \<open>Every comparison with \<^verbatim>\<open>NaN\<close> is false.\<close>

fun num_lt :: "number \<Rightarrow> number \<Rightarrow> bool" where
  "num_lt (Fin x) (Fin y) = (x < y)"
| "num_lt NegInf (Fin y) = True"
| "num_lt NegInf PosInf = True"
| "num_lt (Fin x) PosInf = True"
| "num_lt _ _ = False"

fun num_eq :: "number \<Rightarrow> number \<Rightarrow> bool" where
  "num_eq (Fin x) (Fin y) = (x = y)"
| "num_eq PosInf PosInf = True"
| "num_eq NegInf NegInf = True"
| "num_eq _ _ = False"

definition num_le :: "number \<Rightarrow> number \<Rightarrow> bool" where
  "num_le a b = (num_lt a b \<or> num_eq a b)"

definition num_ge :: "number \<Rightarrow> number \<Rightarrow> bool" where
  "num_ge a b = num_le b a"

definition num_gt :: "number \<Rightarrow> number \<Rightarrow> bool" where
  "num_gt a b = num_lt b a"

text \<open>
  The arithmetic: the exact result, rounded. An operation on \<^verbatim>\<open>NaN\<close> gives \<^verbatim>\<open>NaN\<close>, as
  do the difference of equal infinities and the product of an infinity and zero.
\<close>

fun num_neg :: "number \<Rightarrow> number" where
  "num_neg NaN = NaN"
| "num_neg (Fin x) = Fin (- x)"
| "num_neg PosInf = NegInf"
| "num_neg NegInf = PosInf"

fun num_add :: "number \<Rightarrow> number \<Rightarrow> number" where
  "num_add (Fin x) (Fin y) = fl (x + y)"
| "num_add NaN b = NaN"
| "num_add a NaN = NaN"
| "num_add PosInf NegInf = NaN"
| "num_add NegInf PosInf = NaN"
| "num_add PosInf b = PosInf"
| "num_add NegInf b = NegInf"
| "num_add (Fin x) b = b"

definition num_sub :: "number \<Rightarrow> number \<Rightarrow> number" where
  "num_sub a b = num_add a (num_neg b)"

fun num_mul :: "number \<Rightarrow> number \<Rightarrow> number" where
  "num_mul (Fin x) (Fin y) = fl (x * y)"
| "num_mul NaN b = NaN"
| "num_mul a NaN = NaN"
| "num_mul (Fin x) b = (if x = 0 then NaN else if 0 < x then b else num_neg b)"
| "num_mul a (Fin y) = (if y = 0 then NaN else if 0 < y then a else num_neg a)"
| "num_mul PosInf b = b"
| "num_mul NegInf b = num_neg b"

section \<open>Values as strings\<close>

subsection \<open>Strings\<close>

text \<open>
  A string is a list of bytes. \<open>toLowerCase\<close> maps the ASCII capitals, which is what
  \<^verbatim>\<open>String.prototype.toLowerCase\<close> does on ASCII text: a capital (codes 65 to 90)
  becomes the letter 32 above it, which is the same byte with bit 5 set.
\<close>

definition lower_char :: "char \<Rightarrow> char" where
  "lower_char c =
     (let n = (of_char c :: nat) in
      if 65 \<le> n \<and> n \<le> 90
      then (case c of Char b0 b1 b2 b3 b4 b5 b6 b7 \<Rightarrow> Char b0 b1 b2 b3 b4 True b6 b7)
      else c)"

definition toLowerCase :: "string \<Rightarrow> string" where
  "toLowerCase s = map lower_char s"

text \<open>\<^verbatim>\<open>t.includes(s)\<close>: \<open>s\<close> occurs in \<open>t\<close> as a contiguous run.\<close>

fun str_includes :: "string \<Rightarrow> string \<Rightarrow> bool" where
  "str_includes [] s = (s = [])"
| "str_includes (c # t) s = (prefix s (c # t) \<or> str_includes t s)"

text \<open>\<^verbatim>\<open>s.split(",")\<close>: the pieces between the separators; the empty string gives one empty piece.\<close>

fun split :: "char \<Rightarrow> string \<Rightarrow> string list" where
  "split sep [] = [[]]"
| "split sep (c # cs) =
     (if c = sep then [] # split sep cs
      else (case split sep cs of [] \<Rightarrow> [[c]] | w # ws \<Rightarrow> (c # w) # ws))"

text \<open>\<^verbatim>\<open>arr.includes(x)\<close> and \<^verbatim>\<open>arr.indexOf(x) >= 0\<close> on an array of strings.\<close>

definition arr_includes :: "string list \<Rightarrow> string \<Rightarrow> bool" where
  "arr_includes arr x = (x \<in> set arr)"

subsection \<open>Rendering values as strings\<close>

definition digit_char :: "nat \<Rightarrow> char" where
  "digit_char d = ''0123456789'' ! (d mod 10)"

fun digits :: "nat \<Rightarrow> string" where
  "digits n = (if n < 10 then [digit_char n] else digits (n div 10) @ [digit_char (n mod 10)])"

declare digits.simps [simp del]

text \<open>
  \<^verbatim>\<open>Number.prototype.toString\<close> is modelled on the integers below \<open>10^21\<close>, which print as
  their decimal digits; the rendering of other numbers (the shortest decimal that reads
  back as the same double) is left unspecified.
\<close>

definition Number_toString :: "real \<Rightarrow> string" where
  "Number_toString x =
     (if x \<in> \<int> \<and> \<bar>x\<bar> < 10 ^ 21
      then (if x < 0 then ''-'' else '''') @ digits (nat \<lfloor>\<bar>x\<bar>\<rfloor>)
      else undefined x)"

text \<open>
  \<^verbatim>\<open>toString()\<close> of a value: a string is itself, a boolean its name, an array its
  elements joined by commas (\<^verbatim>\<open>null\<close> and \<^verbatim>\<open>undefined\<close> elements as empty strings), a
  plain object \<^verbatim>\<open>[object Object]\<close>. The rendering of a date depends on the locale and
  is left unspecified. The checks call it on a field only after the test for nil, and a
  condition's value is a string, a number or a boolean, so \<^verbatim>\<open>null\<close> has no case of
  its own.
\<close>

fun join_comma :: "string list \<Rightarrow> string" where
  "join_comma [] = []"
| "join_comma [s] = s"
| "join_comma (s # t # ss) = s @ '','' @ join_comma (t # ss)"

fun toString :: "jsval \<Rightarrow> string" where
  "toString (JStr s) = s"
| "toString (JBool b) = (if b then ''true'' else ''false'')"
| "toString (JNum x) = Number_toString x"
| "toString (JArr xs) = join_comma (map (\<lambda>v. if v = JNull then [] else toString v) xs)"
| "toString (JObj kvs) = ''[object Object]''"
| "toString (JDate d) = undefined d"
| "toString JNull = undefined"

section \<open>Text conditions\<close>

text \<open>
  \<^verbatim>\<open>checkText\<close> of \<^verbatim>\<open>src/recipes/conditions.ts\<close>: \<open>valid\<close> starts false and is set by
  the three operators the check knows; nothing is thrown.
\<close>

definition checkText :: "StravaActivity \<Rightarrow> RecipeCondition \<Rightarrow> bool" where
  "checkText activity condition =
     (let prop = property condition; op = operator condition in
      if isNil (activity prop) then False
      else
        let aText = toLowerCase (toString (the (activity prop)));
            val = toLowerCase (toString (cvalue condition))
        in
          if op = Equal \<and> aText = val then True
          else if op = Like \<and> str_includes aText val then True
          else if op = NotLike \<and> \<not> str_includes aText val then True
          else False)"

text \<open>
  \<^verbatim>\<open>checkText\<close> of the second copy of the condition checks (\<^verbatim>\<open>unnamed/part_001\<close>):
  \<open>valid\<close> starts true, the three operators can clear it, and \<open>GreaterThan\<close> and
  \<open>LessThan\<close> throw.
\<close>

definition checkText_part001 :: "StravaActivity \<Rightarrow> RecipeCondition \<Rightarrow> error + bool" where
  "checkText_part001 activity condition =
     (let prop = property condition; op = operator condition in
      if isNil (activity prop) then Inr False
      else
        let val = toLowerCase (toString (cvalue condition));
            aText = toLowerCase (toString (the (activity prop)))
        in
          if op = Equal \<and> aText \<noteq> val then Inr False
          else if op = Like \<and> \<not> str_includes aText val then Inr False
          else if op = NotLike \<and> str_includes aText val then Inr False
          else if op = GreaterThan \<or> op = LessThan then Inl (InvalidOperator op prop)
          else Inr True)"

subsection \<open>Reading numbers\<close>

definition is_digit :: "char \<Rightarrow> bool" where
  "is_digit c = (let n = (of_char c :: nat) in 48 \<le> n \<and> n \<le> 57)"

definition is_space :: "char \<Rightarrow> bool" where
  "is_space c = (let n = (of_char c :: nat) in n = 32 \<or> (9 \<le> n \<and> n \<le> 13))"

definition digits_val :: "string \<Rightarrow> nat" where
  "digits_val ds = foldl (\<lambda>acc c. 10 * acc + ((of_char c :: nat) - 48)) 0 ds"

text \<open>The sign in front of a numeric literal, and the rest of the string.\<close>

definition read_sign :: "string \<Rightarrow> bool \<times> string" where
  "read_sign s =
     (case s of
        [] \<Rightarrow> (False, [])
      | c # r \<Rightarrow> if c = CHR ''-'' then (True, r) else if c = CHR ''+'' then (False, r) else (False, s))"

text \<open>The exponent part \<^verbatim>\<open>e[+-]digits\<close>, which counts only when it has a digit.\<close>

definition read_exponent :: "string \<Rightarrow> int" where
  "read_exponent s =
     (case s of
        [] \<Rightarrow> 0
      | c # r \<Rightarrow>
          if c = CHR ''e'' \<or> c = CHR ''E'' then
            (let (neg, r') = read_sign r; ds = takeWhile is_digit r'
             in if ds = [] then 0 else (if neg then - int (digits_val ds) else int (digits_val ds)))
          else 0)"

text \<open>
  \<^verbatim>\<open>parseFloat\<close> on a string: leading white space, a sign, then \<^verbatim>\<open>Infinity\<close> or the
  longest prefix that is a decimal literal, and \<^verbatim>\<open>NaN\<close> when there is neither. The result
  is the double nearest to the value of the literal.
\<close>

definition parseFloat_str :: "string \<Rightarrow> number" where
  "parseFloat_str s =
     (let (neg, s2) = read_sign (dropWhile is_space s);
          ip = takeWhile is_digit s2;
          r1 = dropWhile is_digit s2;
          (fp, r2) = (case r1 of
                        [] \<Rightarrow> ([], [])
                      | c # r \<Rightarrow> if c = CHR ''.'' then (takeWhile is_digit r, dropWhile is_digit r)
                                 else ([], r1))
      in if take 8 s2 = ''Infinity'' then (if neg then NegInf else PosInf)
         else if ip = [] \<and> fp = [] then NaN
         else
           let m = real (digits_val ip) + real (digits_val fp) / 10 ^ length fp;
               e = read_exponent r2;
               x = (if 0 \<le> e then m * 10 ^ nat e else m / 10 ^ nat (- e))
           in fl (if neg then - x else x))"

text \<open>
  \<^verbatim>\<open>parseFloat(v)\<close> reads the string of \<open>v\<close>. A number prints as a literal that reads
  back as itself; \<^verbatim>\<open>true\<close>, \<^verbatim>\<open>null\<close>, a date and \<^verbatim>\<open>[object Object]\<close> start with a letter
  or a bracket.
\<close>

fun parseFloat :: "jsval \<Rightarrow> number" where
  "parseFloat (JNum x) = Fin x"
| "parseFloat (JStr s) = parseFloat_str s"
| "parseFloat (JArr xs) = parseFloat_str (toString (JArr xs))"
| "parseFloat (JBool b) = NaN"
| "parseFloat JNull = NaN"
| "parseFloat (JDate d) = NaN"
| "parseFloat (JObj kvs) = NaN"

text \<open>
  \<^verbatim>\<open>Math.round\<close>: the integer nearest to the exact value, a half going up; it is a
  double when the argument is one.
\<close>

fun Math_round :: "number \<Rightarrow> number" where
  "Math_round (Fin x) = Fin (of_int \<lfloor>x + 1 / 2\<rfloor>)"
| "Math_round a = a"

text \<open>
  \<^verbatim>\<open>x.toFixed(1)\<close>: the sign, then the integer \<open>n\<close> nearest to ten times the exact
  magnitude (the larger one of two), printed with one digit after the point. From
  \<open>10^21\<close> on the number prints as \<^verbatim>\<open>toString\<close> does.
\<close>

fun toFixed1 :: "number \<Rightarrow> string" where
  "toFixed1 NaN = ''NaN''"
| "toFixed1 PosInf = ''Infinity''"
| "toFixed1 NegInf = ''-Infinity''"
| "toFixed1 (Fin x) =
     (if 10 ^ 21 \<le> \<bar>x\<bar> then undefined x
      else
        let n = nat \<lfloor>\<bar>x\<bar> * 10 + 1 / 2\<rfloor>
        in (if x < 0 then ''-'' else '''') @ digits (n div 10) @ ''.'' @ [digit_char (n mod 10)])"

section \<open>Number conditions\<close>

text \<open>
  \<^verbatim>\<open>checkNumber\<close> of \<^verbatim>\<open>src/recipes/conditions.ts\<close>. An array counts as its length; the
  two equality operators compare the renderings with one decimal; \<open>Approximate\<close> and
  \<open>Like\<close> test the condition's value against the field plus and minus \<^verbatim>\<open>value * 0.03\<close>
  and \<^verbatim>\<open>value * 0.1\<close>, each product, sum and difference being a double.
\<close>

definition checkNumber :: "StravaActivity \<Rightarrow> RecipeCondition \<Rightarrow> error + bool" where
  "checkNumber activity condition =
     (let prop = property condition; op = operator condition;
          aNumber = (case activity prop of
                       Some (JArr xs) \<Rightarrow> Some (JNum (real (length xs)))
                     | v \<Rightarrow> v)
      in if isNil aNumber then Inr False
         else
           (case aNumber of
              Some (JNum a) \<Rightarrow>
                (let aNum = Fin a; val = parseFloat (cvalue condition) in
                 if op = Equal then Inr (toFixed1 aNum = toFixed1 val)
                 else if op = NotEqual then Inr (toFixed1 aNum \<noteq> toFixed1 val)
                 else if op = Approximate then
                   (let diff = num_mul val (fl 0.03)
                    in Inr (num_le val (num_add aNum diff) \<and> num_ge val (num_sub aNum diff)))
                 else if op = Like then
                   (let diff = num_mul val (fl 0.1)
                    in Inr (num_le val (num_add aNum diff) \<and> num_ge val (num_sub aNum diff)))
                 else if op = LessThan then Inr (num_lt aNum val)
                 else if op = GreaterThan then Inr (num_gt aNum val)
                 else Inr False)
            | _ \<Rightarrow> Inl IllTyped))"

text \<open>
  \<^verbatim>\<open>checkNumber\<close> of \<^verbatim>\<open>unnamed/part_001\<close>: \<open>valid\<close> starts true; \<open>Like\<close> sets it from
  the open 10% window, and \<open>Equal\<close>, \<open>GreaterThan\<close> and \<open>LessThan\<close> clear it.
\<close>

definition checkNumber_part001 :: "StravaActivity \<Rightarrow> RecipeCondition \<Rightarrow> error + bool" where
  "checkNumber_part001 activity condition =
     (let prop = property condition; op = operator condition;
          val = parseFloat (cvalue condition);
          diff = num_mul val (fl 0.1);
          aNumber = (case activity prop of
                       Some (JArr xs) \<Rightarrow> Some (JNum (real (length xs)))
                     | v \<Rightarrow> v)
      in if isNil aNumber then Inr False
         else
           (case aNumber of
              Some (JNum a) \<Rightarrow>
                (let aNum = Fin a in
                 if op = Like then
                   Inr (num_lt val (num_add aNum diff) \<and> num_gt val (num_sub aNum diff))
                 else if op = Equal \<and> \<not> num_eq (Math_round aNum) (Math_round val) then Inr False
                 else if op = GreaterThan \<and> num_le aNum val then Inr False
                 else if op = LessThan \<and> num_ge aNum val then Inr False
                 else Inr True)
            | _ \<Rightarrow> Inl IllTyped))"

section \<open>Location conditions\<close>

text \<open>
  \<^verbatim>\<open>polyline.decode\<close> belongs to the package \<^verbatim>\<open>@mapbox/polyline\<close>; the checks take it
  as the parameter \<open>decode\<close>, from the encoded string to the list of its points.
\<close>

type_synonym coordinate = "number \<times> number"

text \<open>
  The test inside the loop over the coordinates; the sums and differences of the target
  and the radius are doubles.
\<close>

definition in_box :: "coordinate \<Rightarrow> number \<Rightarrow> number \<Rightarrow> number \<Rightarrow> bool" where
  "in_box p cLat cLong radius =
     (case p of (lat, long) \<Rightarrow>
        num_le lat (num_add cLat radius) \<and> num_ge lat (num_sub cLat radius) \<and>
        num_le long (num_add cLong radius) \<and> num_ge long (num_sub cLong radius))"

text \<open>The loop of \<^verbatim>\<open>conditions.ts\<close>: true at the first coordinate inside the box.\<close>

fun passes_near :: "coordinate list \<Rightarrow> number \<Rightarrow> number \<Rightarrow> number \<Rightarrow> bool" where
  "passes_near [] cLat cLong radius = False"
| "passes_near (p # ps) cLat cLong radius =
     (if in_box p cLat cLong radius then True else passes_near ps cLat cLong radius)"

text \<open>
  \<^verbatim>\<open>xs[i]\<close> read as a number: an index past the end gives \<^verbatim>\<open>undefined\<close>, which compares
  as \<^verbatim>\<open>NaN\<close>.
\<close>

definition coord :: "jsval list \<Rightarrow> nat \<Rightarrow> error + number" where
  "coord xs i =
     (if i < length xs then (case xs ! i of JNum x \<Rightarrow> Inr (Fin x) | _ \<Rightarrow> Inl IllTyped)
      else Inr NaN)"

text \<open>\<^verbatim>\<open>[[activity[prop][0], activity[prop][1]]]\<close>\<close>

definition single_point :: "jsval option \<Rightarrow> error + coordinate list" where
  "single_point v =
     (case v of
        Some (JArr xs) \<Rightarrow>
          (case coord xs 0 of
             Inl e \<Rightarrow> Inl e
           | Inr lat \<Rightarrow> (case coord xs 1 of Inl e \<Rightarrow> Inl e | Inr long \<Rightarrow> Inr [(lat, long)]))
      | _ \<Rightarrow> Inl IllTyped)"

text \<open>\<^verbatim>\<open>polyline.decode(activity.polyline)\<close>\<close>

definition decode_polyline ::
  "(string \<Rightarrow> (real \<times> real) list) \<Rightarrow> jsval option \<Rightarrow> error + coordinate list" where
  "decode_polyline decode v =
     (case v of
        Some (JStr s) \<Rightarrow> Inr (map (\<lambda>(lat, long). (Fin lat, Fin long)) (decode s))
      | _ \<Rightarrow> Inl IllTyped)"

text \<open>\<^verbatim>\<open>parseFloat(arr[i])\<close>: an index past the end reads \<^verbatim>\<open>undefined\<close>, which parses as \<^verbatim>\<open>NaN\<close>.\<close>

definition parseFloat_at :: "string list \<Rightarrow> nat \<Rightarrow> number" where
  "parseFloat_at arr i = (if i < length arr then parseFloat_str (arr ! i) else NaN)"

text \<open>
  The radius by operator. In \<^verbatim>\<open>conditions.ts\<close> it stays \<^verbatim>\<open>undefined\<close> for the other
  operators, and the sums with it are \<^verbatim>\<open>NaN\<close>.
\<close>

definition radius_of :: "RecipeOperator \<Rightarrow> number" where
  "radius_of op =
     (if op = Equal then fl 0.000556
      else if op = Approximate then fl 0.002735
      else if op = Like then fl 0.005926
      else NaN)"

text \<open>\<^verbatim>\<open>checkLocation\<close> of \<^verbatim>\<open>src/recipes/conditions.ts\<close>.\<close>

definition checkLocation ::
  "(string \<Rightarrow> (real \<times> real) list) \<Rightarrow> StravaActivity \<Rightarrow> RecipeCondition \<Rightarrow> error + bool" where
  "checkLocation decode activity condition =
     (let prop = property condition; op = operator condition in
      if isNil (activity prop) then Inr False
      else
        (case (if prop = ''polyline'' then decode_polyline decode (activity ''polyline'')
               else single_point (activity prop)) of
           Inl e \<Rightarrow> Inl e
         | Inr coordinates \<Rightarrow>
             (let radius = radius_of op;
                  arr = split CHR '','' (toString (cvalue condition));
                  cLat = parseFloat_at arr 0;
                  cLong = parseFloat_at arr 1
              in Inr (passes_near coordinates cLat cLong radius))))"

text \<open>
  \<^verbatim>\<open>checkLocation\<close> of \<^verbatim>\<open>unnamed/part_001\<close>. The candidate coordinates: the last point
  of the polyline when the condition is on \<^verbatim>\<open>locationEnd\<close>, a polyline is set and
  \<^verbatim>\<open>locationEnd\<close> has length 0; the decoded polyline; the pair of the field; or none, on
  which the check returns false. \<^verbatim>\<open>pop()\<close> of an empty array is \<^verbatim>\<open>undefined\<close>, the
  element \<open>None\<close>, which the loop cannot destructure.
\<close>

definition length_of :: "jsval option \<Rightarrow> error + nat" where
  "length_of v = (case v of Some (JArr xs) \<Rightarrow> Inr (length xs) | _ \<Rightarrow> Inl IllTyped)"

definition last_point ::
  "(string \<Rightarrow> (real \<times> real) list) \<Rightarrow> jsval option \<Rightarrow> error + coordinate option list" where
  "last_point decode v =
     (case v of
        Some (JStr s) \<Rightarrow>
          (let pts = decode s in
           if pts = [] then Inr [None]
           else Inr [Some (case last pts of (lat, long) \<Rightarrow> (Fin lat, Fin long))])
      | _ \<Rightarrow> Inl IllTyped)"

definition candidates_part001 ::
  "(string \<Rightarrow> (real \<times> real) list) \<Rightarrow> StravaActivity \<Rightarrow> string
     \<Rightarrow> error + coordinate option list option" where
  "candidates_part001 decode activity prop =
     (if prop = ''locationEnd'' \<and> truthy (activity ''polyline'') then
        (case length_of (activity ''locationEnd'') of
           Inl e \<Rightarrow> Inl e
         | Inr n \<Rightarrow>
             if n = 0 then map_sum id Some (last_point decode (activity ''polyline''))
             else map_sum id (\<lambda>cs. Some (map Some cs)) (single_point (activity prop)))
      else if prop = ''polyline'' then
        map_sum id (\<lambda>cs. Some (map Some cs)) (decode_polyline decode (activity ''polyline''))
      else
        (case length_of (activity prop) of
           Inl e \<Rightarrow> Inl e
         | Inr n \<Rightarrow>
             if n \<noteq> 0 then map_sum id (\<lambda>cs. Some (map Some cs)) (single_point (activity prop))
             else Inr None))"

fun passes_near_part001 ::
  "coordinate option list \<Rightarrow> number \<Rightarrow> number \<Rightarrow> number \<Rightarrow> error + bool" where
  "passes_near_part001 [] cLat cLong radius = Inr False"
| "passes_near_part001 (None # ps) cLat cLong radius = Inl TypeError"
| "passes_near_part001 (Some p # ps) cLat cLong radius =
     (if in_box p cLat cLong radius then Inr True else passes_near_part001 ps cLat cLong radius)"

text \<open>The radius by operator in \<^verbatim>\<open>unnamed/part_001\<close>, whose last branch throws.\<close>

definition radius_part001 :: "RecipeOperator \<Rightarrow> string \<Rightarrow> error + number" where
  "radius_part001 op prop =
     (if op = Equal then Inr (fl 0.000556)
      else if op = Approximate then Inr (fl 0.002735)
      else if op = Like then Inr (fl 0.005926)
      else Inl (InvalidOperator op prop))"

definition checkLocation_part001 ::
  "(string \<Rightarrow> (real \<times> real) list) \<Rightarrow> StravaActivity \<Rightarrow> RecipeCondition \<Rightarrow> error + bool" where
  "checkLocation_part001 decode activity condition =
     (let prop = property condition; op = operator condition in
      if \<not> truthy (activity prop) then Inr False
      else
        (let arr = split CHR '','' (toString (cvalue condition));
             cLat = parseFloat_at arr 0;
             cLong = parseFloat_at arr 1
         in case candidates_part001 decode activity prop of
              Inl e \<Rightarrow> Inl e
            | Inr None \<Rightarrow> Inr False
            | Inr (Some coordinates) \<Rightarrow>
                (case radius_part001 op prop of
                   Inl e \<Rightarrow> Inl e
                 | Inr radius \<Rightarrow> passes_near_part001 coordinates cLat cLong radius)))"

section \<open>Timestamp conditions\<close>

text \<open>
  \<^verbatim>\<open>parseInt\<close> on a string: white space, a sign, \<^verbatim>\<open>0x\<close> for base 16, then digits; the
  result is the double nearest to the integer read.
\<close>

definition hex_val :: "char \<Rightarrow> nat option" where
  "hex_val c =
     (let n = (of_char c :: nat) in
      if 48 \<le> n \<and> n \<le> 57 then Some (n - 48)
      else if 97 \<le> n \<and> n \<le> 102 then Some (n - 87)
      else if 65 \<le> n \<and> n \<le> 70 then Some (n - 55)
      else None)"

definition hex_digits_val :: "string \<Rightarrow> nat" where
  "hex_digits_val ds = foldl (\<lambda>acc c. 16 * acc + the (hex_val c)) 0 ds"

definition parseInt_str :: "string \<Rightarrow> number" where
  "parseInt_str s =
     (let (neg, s2) = read_sign (dropWhile is_space s);
          hex = (take 2 s2 = ''0x'' \<or> take 2 s2 = ''0X'');
          ds = (if hex then takeWhile (\<lambda>c. hex_val c \<noteq> None) (drop 2 s2)
                else takeWhile is_digit s2)
      in if ds = [] then NaN
         else
           let n = real (if hex then hex_digits_val ds else digits_val ds)
           in fl (if neg then - n else n))"

text \<open>\<^verbatim>\<open>Math.trunc\<close>: towards zero.\<close>

definition js_trunc :: "real \<Rightarrow> int" where
  "js_trunc x = (if 0 \<le> x then \<lfloor>x\<rfloor> else \<lceil>x\<rceil>)"

text \<open>
  \<^verbatim>\<open>parseInt(v)\<close> reads the string of \<open>v\<close>. A number that prints in positional notation
  (zero, or a magnitude from \<open>10^-6\<close> up to \<open>10^21\<close>) gives its integer part; the other
  numbers print with an exponent, and what is read from that is left unspecified.
\<close>

fun parseInt :: "jsval \<Rightarrow> number" where
  "parseInt (JNum x) =
     (if x = 0 \<or> (1 / 10 ^ 6 \<le> \<bar>x\<bar> \<and> \<bar>x\<bar> < 10 ^ 21) then Fin (of_int (js_trunc x))
      else undefined x)"
| "parseInt (JStr s) = parseInt_str s"
| "parseInt (JArr xs) = parseInt_str (toString (JArr xs))"
| "parseInt (JBool b) = NaN"
| "parseInt JNull = NaN"
| "parseInt (JDate d) = NaN"
| "parseInt (JObj kvs) = NaN"

subsection \<open>Dates\<close>

text \<open>
  A \<^verbatim>\<open>dayjs\<close> object in UTC is its time value in milliseconds. \<^verbatim>\<open>add(n, "minutes")\<close>
  computes \<^verbatim>\<open>getTime() + n * 60000\<close> in doubles and builds a date from the sum: the sum
  without its fraction, or an invalid date (\<open>None\<close>) when the sum is not finite or beyond
  \<open>8.64 * 10^15\<close> in magnitude.
\<close>

definition add_minutes :: "int \<Rightarrow> real \<Rightarrow> int option" where
  "add_minutes ms n =
     (case num_add (Fin (of_int ms)) (num_mul (Fin n) (Fin 60000)) of
        Fin t \<Rightarrow> if \<bar>t\<bar> \<le> 8640000000000000 then Some (js_trunc t) else None
      | _ \<Rightarrow> None)"

definition second_of :: "int \<Rightarrow> int" where
  "second_of ms = (ms div 1000) mod 60"

definition minute_of :: "int \<Rightarrow> int" where
  "minute_of ms = (ms div 60000) mod 60"

definition hour_of :: "int \<Rightarrow> int" where
  "hour_of ms = (ms div 3600000) mod 24"

text \<open>
  The time of day that both copies of \<^verbatim>\<open>checkTimestamp\<close> compute for a field that is
  neither a pace nor a duration: the date in UTC, moved by \<^verbatim>\<open>utcStartOffset\<close> minutes when
  the property is \<^verbatim>\<open>dateStart\<close> and the offset is set and not zero, as seconds since
  midnight. The seconds, minutes and hours are integers below 60 and 24, so that the sum
  \<^verbatim>\<open>second() + minute() * 60 + hour() * 3600\<close> is exact; on an invalid date each of them
  is \<^verbatim>\<open>NaN\<close>.
\<close>

definition clock_time :: "StravaActivity \<Rightarrow> string \<Rightarrow> error + number" where
  "clock_time activity prop =
     (case activity prop of
        Some (JDate d) \<Rightarrow>
          (if prop = ''dateStart'' \<and> truthy (activity ''utcStartOffset'') then
             (case activity ''utcStartOffset'' of
                Some (JNum off) \<Rightarrow>
                  (case add_minutes d off of
                     None \<Rightarrow> Inr NaN
                   | Some aDate \<Rightarrow>
                       Inr (Fin (of_int (second_of aDate + minute_of aDate * 60
                                         + hour_of aDate * 3600))))
              | _ \<Rightarrow> Inl IllTyped)
           else Inr (Fin (of_int (second_of d + minute_of d * 60 + hour_of d * 3600))))
      | _ \<Rightarrow> Inl IllTyped)"

text \<open>\<^verbatim>\<open>aTime = activity[prop]\<close> for a pace or a duration.\<close>

definition raw_time :: "StravaActivity \<Rightarrow> string \<Rightarrow> error + number" where
  "raw_time activity prop = (case activity prop of Some (JNum x) \<Rightarrow> Inr (Fin x) | _ \<Rightarrow> Inl IllTyped)"

text \<open>\<^verbatim>\<open>aTime >= value - buffer && aTime <= value + buffer\<close>\<close>

definition within_buffer :: "number \<Rightarrow> number \<Rightarrow> real \<Rightarrow> bool" where
  "within_buffer aTime val buffer =
     (num_ge aTime (num_sub val (Fin buffer)) \<and> num_le aTime (num_add val (Fin buffer)))"

text \<open>
  \<^verbatim>\<open>checkTimestamp\<close> of \<^verbatim>\<open>src/recipes/conditions.ts\<close>: the buffers are 1, 20 and 60 for
  a pace and 60, 600 and 1800 otherwise.
\<close>

definition checkTimestamp :: "StravaActivity \<Rightarrow> RecipeCondition \<Rightarrow> error + bool" where
  "checkTimestamp activity condition =
     (let prop = property condition; op = operator condition in
      if isNil (activity prop) then Inr False
      else
        (let isPace = prefix ''pace'' prop;
             isTime = str_includes prop ''Time'';
             eqBuffer = (if isPace then 1 else 60);
             approxBuffer = (if isPace then 20 else 600);
             likeBuffer = (if isPace then 60 else 1800)
         in case (if isPace \<or> isTime then raw_time activity prop else clock_time activity prop) of
              Inl e \<Rightarrow> Inl e
            | Inr aTime \<Rightarrow>
                (let val = parseInt (cvalue condition) in
                 if op = Equal then Inr (within_buffer aTime val eqBuffer)
                 else if op = Approximate then Inr (within_buffer aTime val approxBuffer)
                 else if op = Like then Inr (within_buffer aTime val likeBuffer)
                 else if op = LessThan then Inr (num_lt aTime val)
                 else if op = GreaterThan then Inr (num_gt aTime val)
                 else Inr False)))"

text \<open>
  \<^verbatim>\<open>checkTimestamp\<close> of \<^verbatim>\<open>unnamed/part_001\<close>: a falsy field stops the check, \<open>valid\<close>
  starts true, and the buffers are 120, 600 and 1800.
\<close>

definition checkTimestamp_part001 :: "StravaActivity \<Rightarrow> RecipeCondition \<Rightarrow> error + bool" where
  "checkTimestamp_part001 activity condition =
     (let prop = property condition; op = operator condition in
      if \<not> truthy (activity prop) then Inr False
      else
        (let val = parseInt (cvalue condition)
         in case (if str_includes prop ''Time'' then raw_time activity prop
                  else clock_time activity prop) of
              Inl e \<Rightarrow> Inl e
            | Inr aTime \<Rightarrow>
                if op = GreaterThan then Inr (num_gt aTime val)
                else if op = LessThan then Inr (num_lt aTime val)
                else if op = Equal then Inr (within_buffer aTime val 120)
                else if op = Approximate then Inr (within_buffer aTime val 600)
                else if op = Like then Inr (within_buffer aTime val 1800)
                else Inr True))"

section \<open>Sport type and gear conditions\<close>

text \<open>\<^verbatim>\<open>checkSportType\<close> of \<^verbatim>\<open>src/recipes/conditions.ts\<close>.\<close>

definition checkSportType :: "StravaActivity \<Rightarrow> RecipeCondition \<Rightarrow> bool" where
  "checkSportType activity condition =
     (let op = operator condition;
          sportType = (if truthy (activity ''sportType'') then toString (the (activity ''sportType''))
                       else '''');
          arrValue = split CHR '','' (toString (cvalue condition))
      in if op = Equal then arr_includes arrValue sportType
         else if op = NotEqual then sportType = [] \<or> \<not> arr_includes arrValue sportType
         else False)"

text \<open>
  \<^verbatim>\<open>checkSportType\<close> of \<^verbatim>\<open>unnamed/part_001\<close>: an activity without a sport type fails
  the check, and every operator but \<open>Equal\<close> throws.
\<close>

definition checkSportType_part001 :: "StravaActivity \<Rightarrow> RecipeCondition \<Rightarrow> error + bool" where
  "checkSportType_part001 activity condition =
     (let prop = property condition; op = operator condition in
      if \<not> truthy (activity ''sportType'') then Inr False
      else
        (let val = toString (cvalue condition);
             sportType = toString (the (activity ''sportType''))
         in if op = Equal then Inr (val = sportType \<or> arr_includes (split CHR '','' val) sportType)
            else Inl (InvalidOperator op prop)))"

text \<open>
  \<^verbatim>\<open>checkGear\<close> of \<^verbatim>\<open>src/recipes/conditions.ts\<close>. \<^verbatim>\<open>activity.gear.id\<close> is the \<^verbatim>\<open>id\<close> of
  the gear object, and \<^verbatim>\<open>undefined\<close> on a value without that property; the array of
  strings includes it only if it is a string of the array.
\<close>

definition gear_id :: "StravaActivity \<Rightarrow> jsval option" where
  "gear_id activity =
     (if truthy (activity ''gear'')
      then (case activity ''gear'' of Some (JObj kvs) \<Rightarrow> map_of kvs ''id'' | _ \<Rightarrow> None)
      else Some (JStr ''''))"

definition arr_includes_val :: "string list \<Rightarrow> jsval option \<Rightarrow> bool" where
  "arr_includes_val arr v = (case v of Some (JStr s) \<Rightarrow> arr_includes arr s | _ \<Rightarrow> False)"

definition checkGear :: "StravaActivity \<Rightarrow> RecipeCondition \<Rightarrow> bool" where
  "checkGear activity condition =
     (let op = operator condition;
          gear = gear_id activity;
          arrValue = split CHR '','' (toString (cvalue condition))
      in if op = Equal then arr_includes_val arrValue gear
         else if op = NotEqual then \<not> truthy gear \<or> \<not> arr_includes_val arrValue gear
         else False)"

section \<open>Weather conditions\<close>

text \<open>
  A weather summary has the weather at the start and at the end of the activity, each
  a map from the name of an attribute to its value, or nothing. The summary that
  \<^verbatim>\<open>weather.getActivityWeather\<close> resolves to is the parameter \<open>weatherSummary\<close> of the
  checks, \<open>None\<close> when the service has none.
\<close>

type_synonym WeatherPoint = "string \<Rightarrow> jsval option"

record WeatherSummary =
  w_start :: "WeatherPoint option"
  w_end :: "WeatherPoint option"

text \<open>\<^verbatim>\<open>prop.split(".")[1]\<close>, which is the key \<^verbatim>\<open>undefined\<close> when the name has no point.\<close>

definition weatherProp_of :: "string \<Rightarrow> string" where
  "weatherProp_of prop =
     (let parts = split CHR ''.'' prop in if 1 < length parts then parts ! 1 else ''undefined'')"

text \<open>\<^verbatim>\<open>replace(/[^\d.-]/g, "")\<close> keeps the digits, the points and the minus signs.\<close>

definition strip_non_numeric :: "string \<Rightarrow> string" where
  "strip_non_numeric s = filter (\<lambda>c. is_digit c \<or> c = CHR ''.'' \<or> c = CHR ''-'') s"

text \<open>
  \<^verbatim>\<open>isNaN(s)\<close> on a string of digits, points and minus signs: the empty string counts as
  0; otherwise the whole string has to be one decimal literal.
\<close>

definition isNaN_str :: "string \<Rightarrow> bool" where
  "isNaN_str s =
     (if s = [] then False
      else
        let s2 = (case s of [] \<Rightarrow> [] | c # r \<Rightarrow> if c = CHR ''-'' then r else s);
            ip = takeWhile is_digit s2;
            r1 = dropWhile is_digit s2
        in case r1 of
             [] \<Rightarrow> ip = []
           | c # r \<Rightarrow> c \<noteq> CHR ''.'' \<or> \<not> list_all is_digit r \<or> (ip = [] \<and> r = []))"

text \<open>
  The attribute as the checks compare it. Only a string has \<^verbatim>\<open>replace\<close>. The stripped
  string becomes a number when \<^verbatim>\<open>isNaN\<close> is false of it; otherwise it stays a string that
  every comparison of the checks converts to \<^verbatim>\<open>NaN\<close> (in the windows, the subtraction
  does), so it is \<^verbatim>\<open>NaN\<close> here.
\<close>

definition weather_value :: "jsval option \<Rightarrow> error + number" where
  "weather_value v =
     (case v of
        Some (JStr s) \<Rightarrow>
          (let t = strip_non_numeric s in Inr (if \<not> isNaN_str t then parseFloat_str t else NaN))
      | _ \<Rightarrow> Inl TypeError)"

text \<open>
  The body of the loop of \<^verbatim>\<open>conditions.ts\<close> over the start and the end: the new
  \<open>valid\<close>. The attribute's number \<open>w\<close> was computed before the loop.
\<close>

definition weather_step ::
  "RecipeOperator \<Rightarrow> string \<Rightarrow> number \<Rightarrow> number \<Rightarrow> bool \<Rightarrow> WeatherPoint option \<Rightarrow> bool" where
  "weather_step op weatherProp val w valid summary =
     (if summary = None \<or> isNil ((the summary) weatherProp) then valid
      else if op = Equal then valid \<or> num_eq w val
      else if op = Approximate then
        (let diff = num_mul val (fl 0.03)
         in num_le val (num_add w diff) \<and> num_ge val (num_sub w diff))
      else if op = Like then
        (let diff = num_mul val (fl 0.1)
         in num_le val (num_add w diff) \<and> num_ge val (num_sub w diff))
      else if op = LessThan then valid \<or> num_lt w val
      else if op = GreaterThan then valid \<or> num_gt w val
      else valid)"

text \<open>
  \<^verbatim>\<open>checkWeather\<close> of \<^verbatim>\<open>src/recipes/conditions.ts\<close>. \<^verbatim>\<open>let summary: WeatherSummary\<close>
  declares the variable without a value, and the next statement that runs after the
  test of the fetched summary reads \<^verbatim>\<open>summary[weatherProp]\<close>: the read of a property of
  \<^verbatim>\<open>undefined\<close> throws, and the promise of the check is rejected.
\<close>

definition checkWeather ::
  "WeatherSummary option \<Rightarrow> StravaActivity \<Rightarrow> RecipeCondition \<Rightarrow> error + bool" where
  "checkWeather weatherSummary activity condition =
     (let prop = property condition; op = operator condition in
      if \<not> truthy (activity ''hasLocation'') then Inr False
      else
        (let weatherProp = weatherProp_of prop;
             summary = (None :: WeatherPoint option)
         in case weatherSummary of
              None \<Rightarrow> Inr False
            | Some ws \<Rightarrow>
                (case summary of
                   None \<Rightarrow> Inl TypeError
                 | Some sm \<Rightarrow>
                     (case weather_value (sm weatherProp) of
                        Inl e \<Rightarrow> Inl e
                      | Inr w \<Rightarrow>
                          (let val = parseInt (cvalue condition)
                           in Inr (foldl (weather_step op weatherProp val w) False
                                     [w_start ws, w_end ws]))))))"

text \<open>
  The loop of \<^verbatim>\<open>unnamed/part_001\<close>, which reads the attribute inside the loop and throws
  on an operator it does not know.
\<close>

fun weather_loop_part001 ::
  "RecipeOperator \<Rightarrow> string \<Rightarrow> string \<Rightarrow> number \<Rightarrow> number \<Rightarrow> WeatherPoint option list \<Rightarrow> bool
     \<Rightarrow> error + bool" where
  "weather_loop_part001 op prop weatherProp val diff [] valid = Inr valid"
| "weather_loop_part001 op prop weatherProp val diff (summary # rest) valid =
     (if summary = None \<or> isNil ((the summary) weatherProp)
      then weather_loop_part001 op prop weatherProp val diff rest valid
      else
        (case weather_value ((the summary) weatherProp) of
           Inl e \<Rightarrow> Inl e
         | Inr w \<Rightarrow>
             if op = Equal then
               weather_loop_part001 op prop weatherProp val diff rest (valid \<or> num_eq w val)
             else if op = Like then
               weather_loop_part001 op prop weatherProp val diff rest
                 (num_lt val (num_add w diff) \<and> num_gt val (num_sub w diff))
             else if op = GreaterThan then
               weather_loop_part001 op prop weatherProp val diff rest (valid \<or> num_gt w val)
             else if op = LessThan then
               weather_loop_part001 op prop weatherProp val diff rest (valid \<or> num_lt w val)
             else Inl (InvalidOperator op prop)))"

text \<open>
  \<^verbatim>\<open>checkWeather\<close> of \<^verbatim>\<open>unnamed/part_001\<close>: the body runs inside \<^verbatim>\<open>try\<close>, and the
  \<^verbatim>\<open>catch\<close> turns whatever is thrown into the verdict false.
\<close>

definition checkWeather_part001 ::
  "WeatherSummary option \<Rightarrow> StravaActivity \<Rightarrow> RecipeCondition \<Rightarrow> bool" where
  "checkWeather_part001 weatherSummary activity condition =
     (let prop = property condition; op = operator condition in
      if \<not> truthy (activity ''hasLocation'') then False
      else
        (let val = parseInt (cvalue condition);
             diff = num_mul val (fl 0.1);
             weatherProp = weatherProp_of prop
         in case weatherSummary of
              None \<Rightarrow> False
            | Some ws \<Rightarrow>
                (case weather_loop_part001 op prop weatherProp val diff [w_start ws, w_end ws] False of
                   Inl e \<Rightarrow> False
                 | Inr valid \<Rightarrow> valid)))"

section \<open>Music conditions\<close>

text \<open>
  The user as the checks read it: the linked music account, and the dates of the last
  activity and of the registration (time values in milliseconds).
\<close>

record UserData =
  spotify :: "jsval option"
  dateLastActivity :: "int option"
  dateRegistered :: "int option"

record Track =
  title :: string

text \<open>
  \<^verbatim>\<open>checkSpotify\<close> of \<^verbatim>\<open>src/recipes/conditions.ts\<close>. \<open>fetched\<close> is what
  \<^verbatim>\<open>spotify.getActivityTracks\<close> resolves to, \<open>None\<close> for a value that \<^verbatim>\<open>|| []\<close> replaces.
  The filters of \<open>Like\<close> and \<open>NotLike\<close> are written as in the source, with
  \<^verbatim>\<open>t.includes(t)\<close>. The branch for a user without an account sets \<open>valid\<close> and falls
  through to the final \<^verbatim>\<open>return false\<close>.
\<close>

definition checkSpotify :: "UserData \<Rightarrow> Track list option \<Rightarrow> RecipeCondition \<Rightarrow> bool" where
  "checkSpotify user fetched condition =
     (let op = operator condition in
      if \<not> truthy (spotify user) then False
      else
        (let tracks = (case fetched of None \<Rightarrow> [] | Some ts \<Rightarrow> ts);
             trackTitles = map (\<lambda>t. toLowerCase (title t)) tracks;
             val = toLowerCase (toString (cvalue condition))
         in if \<not> truthy (spotify user) \<and> op = NotLike then False
            else if 0 < length tracks then
              (if op = Equal then 0 < length (filter (\<lambda>t. t = val) trackTitles)
               else if op = Like then 0 < length (filter (\<lambda>t. str_includes t t) trackTitles)
               else if op = NotLike then 0 < length (filter (\<lambda>t. \<not> str_includes t t) trackTitles)
               else False)
            else if op = NotLike then True
            else False))"

section \<open>First activity of the day\<close>

subsection \<open>The calendar in UTC\<close>

text \<open>
  The year and the day of the year (1 for the first of January) of a time value, by the
  usual count of days in eras of 400 years that start on a first of March.
\<close>

definition leap_year :: "int \<Rightarrow> bool" where
  "leap_year y = (y mod 4 = 0 \<and> (y mod 100 \<noteq> 0 \<or> y mod 400 = 0))"

definition year_and_day :: "int \<Rightarrow> int \<times> int" where
  "year_and_day ms =
     (let z = ms div 86400000 + 719468;
          era = z div 146097;
          doe = z mod 146097;
          yoe = (doe - doe div 1460 + doe div 36524 - doe div 146096) div 365;
          y = yoe + era * 400;
          doy = doe - (365 * yoe + yoe div 4 - yoe div 100)
      in if 306 \<le> doy then (y + 1, doy - 305)
         else (y, doy + 60 + (if leap_year y then 1 else 0)))"

definition year_of :: "int \<Rightarrow> int" where
  "year_of ms = fst (year_and_day ms)"

definition dayOfYear :: "int \<Rightarrow> int" where
  "dayOfYear ms = snd (year_and_day ms)"

definition startOf_day :: "int \<Rightarrow> int" where
  "startOf_day ms = ms - ms mod 86400000"

definition endOf_day :: "int \<Rightarrow> int" where
  "endOf_day ms = startOf_day ms + 86399999"

subsection \<open>The check\<close>

record StravaActivityQuery =
  q_after :: int
  q_before :: "int option"

text \<open>
  \<^verbatim>\<open>dayjs(activity.dateStart)\<close>: a date is itself and \<^verbatim>\<open>undefined\<close> is the current
  time.
\<close>

definition dayjs_of :: "int \<Rightarrow> jsval option \<Rightarrow> error + int" where
  "dayjs_of now v =
     (case v of None \<Rightarrow> Inr now | Some (JDate d) \<Rightarrow> Inr d | _ \<Rightarrow> Inl IllTyped)"

text \<open>
  \<^verbatim>\<open>_.filter(dayActivities, {sportType: activity.sportType})\<close> keeps the activities that
  have the property with an equal value.
\<close>

definition filter_sport :: "StravaActivity \<Rightarrow> StravaActivity list \<Rightarrow> StravaActivity list" where
  "filter_sport activity dayActivities =
     filter (\<lambda>a. a ''sportType'' \<noteq> None \<and> a ''sportType'' = activity ''sportType'') dayActivities"

text \<open>
  \<^verbatim>\<open>_.sortBy(filteredActivities, "dateStart")\<close>: a stable sort by the start date, for
  activities that all have one.
\<close>

definition date_key :: "StravaActivity \<Rightarrow> int" where
  "date_key a = (case a ''dateStart'' of Some (JDate d) \<Rightarrow> d | _ \<Rightarrow> 0)"

definition has_date :: "StravaActivity \<Rightarrow> bool" where
  "has_date a = (case a ''dateStart'' of Some (JDate d) \<Rightarrow> True | _ \<Rightarrow> False)"

definition sortBy_dateStart :: "StravaActivity list \<Rightarrow> error + StravaActivity list" where
  "sortBy_dateStart as =
     (if list_all has_date as then Inr (sort_key date_key as) else Inl IllTyped)"

text \<open>\<^verbatim>\<open>==\<close> on two identifiers: numbers or strings; an unset one equals only an unset one.\<close>

definition loose_eq :: "jsval option \<Rightarrow> jsval option \<Rightarrow> error + bool" where
  "loose_eq a b =
     (if isNil a \<or> isNil b then Inr (isNil a \<and> isNil b)
      else
        (case (a, b) of
           (Some (JNum x), Some (JNum y)) \<Rightarrow> Inr (x = y)
         | (Some (JStr s), Some (JStr t)) \<Rightarrow> Inr (s = t)
         | _ \<Rightarrow> Inl IllTyped))"

text \<open>
  The part of \<^verbatim>\<open>checkFirstOfDay\<close> that asks for the activities of the day.
  \<open>getActivities\<close> is what \<^verbatim>\<open>strava.activities.getActivities(user, query)\<close> resolves to.
\<close>

definition first_among_day ::
  "(StravaActivityQuery \<Rightarrow> StravaActivity list) \<Rightarrow> int \<Rightarrow> int \<Rightarrow> StravaActivity \<Rightarrow> bool
     \<Rightarrow> error + bool" where
  "first_among_day getActivities now activityDate activity sameSport =
     (let query = \<lparr>q_after = startOf_day activityDate, q_before = None\<rparr>;
          query = (if dayOfYear now \<noteq> dayOfYear activityDate
                   then query\<lparr>q_before := Some (endOf_day activityDate)\<rparr> else query);
          dayActivities = getActivities query;
          filteredActivities = (if sameSport then filter_sport activity dayActivities
                                else dayActivities)
      in case sortBy_dateStart filteredActivities of
           Inl e \<Rightarrow> Inl e
         | Inr activities \<Rightarrow>
             if length activities = 0 then Inr True
             else loose_eq (hd activities ''id'') (activity ''id''))"

text \<open>
  \<^verbatim>\<open>checkFirstOfDay\<close> of \<^verbatim>\<open>src/recipes/conditions.ts\<close>. \<open>now\<close> is the time value of
  \<^verbatim>\<open>dayjs()\<close>. The verdict of \<open>Equal\<close> is \<^verbatim>\<open>isFirst && value\<close> and the verdict of
  \<open>NotEqual\<close> is \<^verbatim>\<open>!isFirst && !value\<close>.
\<close>

definition checkFirstOfDay ::
  "(StravaActivityQuery \<Rightarrow> StravaActivity list) \<Rightarrow> int \<Rightarrow> UserData \<Rightarrow> StravaActivity
     \<Rightarrow> RecipeCondition \<Rightarrow> bool \<Rightarrow> error + bool" where
  "checkFirstOfDay getActivities now user activity condition sameSport =
     (let op = operator condition;
          val = cvalue condition;
          lastActivityDate = (case dateLastActivity user of
                                Some d \<Rightarrow> d
                              | None \<Rightarrow> (case dateRegistered user of Some d \<Rightarrow> d | None \<Rightarrow> now))
      in case dayjs_of now (activity ''dateStart'') of
           Inl e \<Rightarrow> Inl e
         | Inr activityDate \<Rightarrow>
             (let isFirst = (dayOfYear activityDate > dayOfYear lastActivityDate
                             \<or> year_of activityDate > year_of lastActivityDate)
              in case (if \<not> isFirst \<and> (sameSport \<or> lastActivityDate > activityDate)
                       then first_among_day getActivities now activityDate activity sameSport
                       else Inr False) of
                   Inl e \<Rightarrow> Inl e
                 | Inr found \<Rightarrow>
                     (let isFirst = (isFirst \<or> found) in
                      if op = Equal then Inr (isFirst \<and> truthy (Some val))
                      else if op = NotEqual then Inr (\<not> isFirst \<and> \<not> truthy (Some val))
                      else Inr False)))"

text \<open>
  Inputs on which \<^verbatim>\<open>checkFirstOfDay\<close> reaches its verdict: the start date of the
  activity is a date or unset, and every activity that the history returns has a start
  date and a number as identifier, as the activity itself has.
\<close>

definition firstOfDay_typed ::
  "(StravaActivityQuery \<Rightarrow> StravaActivity list) \<Rightarrow> StravaActivity \<Rightarrow> bool" where
  "firstOfDay_typed getActivities activity =
     ((activity ''dateStart'' = None \<or> (\<exists>d. activity ''dateStart'' = Some (JDate d))) \<and>
      (\<exists>n. activity ''id'' = Some (JNum n)) \<and>
      (\<forall>q. \<forall>a \<in> set (getActivities q). has_date a \<and> (\<exists>n. a ''id'' = Some (JNum n))))"

section \<open>Properties of the rounding to doubles\<close>

lemma pow2_powr: "pow2 e = 2 powr (of_int e)"
  by (simp add: pow2_def powr_int)

lemma pow2_pos: "0 < pow2 e"
  by (simp add: pow2_powr)

lemma pow2_add: "pow2 (a + b) = pow2 a * pow2 b"
  by (simp add: pow2_powr powr_add)

lemma pow2_mono: "a \<le> b \<Longrightarrow> pow2 a \<le> pow2 b"
  by (simp add: pow2_powr)

lemma binade_bounds:
  assumes "x \<noteq> 0"
  shows "pow2 (binade x) \<le> \<bar>x\<bar>" and "\<bar>x\<bar> < pow2 (binade x + 1)"
proof -
  have pos: "0 < \<bar>x\<bar>" using assms by simp
  have "of_int (binade x) \<le> log 2 \<bar>x\<bar>"
    unfolding binade_def by simp
  then show "pow2 (binade x) \<le> \<bar>x\<bar>"
    using pos by (simp add: pow2_powr le_log_iff)
  have "log 2 \<bar>x\<bar> < of_int (binade x + 1)"
    unfolding binade_def by linarith
  then show "\<bar>x\<bar> < pow2 (binade x + 1)"
    using pos by (simp add: pow2_powr log_less_iff del: of_int_add)
qed

lemma binade_eq:
  assumes "pow2 k \<le> \<bar>x\<bar>" and "\<bar>x\<bar> < pow2 (k + 1)"
  shows "binade x = k"
proof -
  have pos: "0 < \<bar>x\<bar>" using assms(1) pow2_pos [of k] by linarith
  have "of_int k \<le> log 2 \<bar>x\<bar>"
    using assms(1) pos by (simp add: pow2_powr le_log_iff)
  moreover have "log 2 \<bar>x\<bar> < of_int k + 1"
    using assms(2) pos by (simp add: pow2_powr log_less_iff)
  ultimately show ?thesis
    unfolding binade_def by linarith
qed

lemma round_even_error: "\<bar>of_int (round_even y) - y\<bar> \<le> 1 / 2"
  unfolding round_even_def Let_def by (auto; linarith)

lemma round_even_of_int: "round_even (of_int k) = k"
  by (simp add: round_even_def)

text \<open>
  The error of rounding: relative \<open>2^-53\<close>, and absolute \<open>2^-1075\<close> in the subnormal
  range, for an exact result below \<open>2^1023\<close> in magnitude, which gives a finite double.
\<close>

lemma fl_error:
  assumes "\<bar>x\<bar> \<le> pow2 1023"
  shows "\<exists>y. fl x = Fin y \<and> \<bar>y - x\<bar> \<le> \<bar>x\<bar> / 2 ^ 53 + pow2 (- 1075)"
proof (cases "x = 0")
  case True
  then show ?thesis using pow2_pos [of "- 1075"] by (simp add: fl_def)
next
  case False
  define e where "e = max (binade x - 52) (- 1074)"
  define y where "y = of_int (round_even (x / pow2 e)) * pow2 e"
  have pe: "0 < pow2 e" by (rule pow2_pos)
  have "\<bar>of_int (round_even (x / pow2 e)) - x / pow2 e\<bar> * pow2 e \<le> 1 / 2 * pow2 e"
    using round_even_error [of "x / pow2 e"] pe by (intro mult_right_mono) simp_all
  moreover have "\<bar>of_int (round_even (x / pow2 e)) - x / pow2 e\<bar> * pow2 e = \<bar>y - x\<bar>"
  proof -
    have "\<bar>of_int (round_even (x / pow2 e)) - x / pow2 e\<bar> * pow2 e
            = \<bar>(of_int (round_even (x / pow2 e)) - x / pow2 e) * pow2 e\<bar>"
      using pe by (simp add: abs_mult)
    also have "(of_int (round_even (x / pow2 e)) - x / pow2 e) * pow2 e = y - x"
      using pe by (simp add: y_def algebra_simps)
    finally show ?thesis .
  qed
  ultimately have err: "\<bar>y - x\<bar> \<le> pow2 e / 2" by simp
  have half: "pow2 e / 2 \<le> \<bar>x\<bar> / 2 ^ 53 + pow2 (- 1075)"
  proof (cases "- 1074 \<le> binade x - 52")
    case True
    then have "e = binade x + (- 52)" by (simp add: e_def)
    then have "pow2 e / 2 = pow2 (binade x) * (pow2 (- 52) / 2)"
      by (simp only: pow2_add)
    also have "pow2 (- 52) / 2 = pow2 (- 53)"
      by (simp add: pow2_def)
    finally have "pow2 e / 2 = pow2 (binade x) * pow2 (- 53)" .
    also have "\<dots> \<le> \<bar>x\<bar> * pow2 (- 53)"
      using binade_bounds(1) [OF False] pow2_pos [of "- 53"] by (intro mult_right_mono) simp_all
    also have "\<dots> = \<bar>x\<bar> / 2 ^ 53" by (simp add: pow2_def)
    finally show ?thesis using pow2_pos [of "- 1075"] by linarith
  next
    case False
    then have "e = - 1074" by (simp add: e_def)
    then have "pow2 e / 2 = pow2 (- 1075)"
      by (simp add: pow2_def)
    then show ?thesis by simp
  qed
  have bound: "\<bar>y - x\<bar> \<le> \<bar>x\<bar> / 2 ^ 53 + pow2 (- 1075)"
    using err half by linarith
  have small: "pow2 (- 1075) \<le> pow2 1023 / 2"
    using pow2_mono [of "- 1075" 1022] pow2_add [of 1022 1] by (simp add: pow2_def)
  have "\<bar>y\<bar> \<le> \<bar>x\<bar> + \<bar>x\<bar> / 2 ^ 53 + pow2 (- 1075)"
    using bound by linarith
  also have "\<dots> \<le> pow2 1023 + pow2 1023 / 2 ^ 53 + pow2 1023 / 2"
    using assms small by (simp add: add_mono divide_right_mono)
  also have "\<dots> < pow2 1023 * 2"
    using pow2_pos [of 1023] by (simp add: field_simps)
  also have "\<dots> = pow2 1024"
    using pow2_add [of 1023 1] by (simp add: pow2_def)
  finally have "\<not> pow2 1024 \<le> \<bar>y\<bar>" by simp
  then have "fl x = Fin y"
    using False by (simp add: fl_def Let_def e_def y_def)
  with bound show ?thesis by blast
qed

text \<open>An integer below \<open>2^53\<close> in magnitude is a double.\<close>

lemma fl_int:
  assumes "x \<in> \<int>" and "\<bar>x\<bar> < 2 ^ 53"
  shows "fl x = Fin x"
proof (cases "x = 0")
  case True
  then show ?thesis by (simp add: fl_def)
next
  case False
  obtain k where k: "x = of_int k" using assms(1) by (auto elim: Ints_cases)
  define b where "b = binade x"
  have one: "1 \<le> \<bar>x\<bar>"
    using False k by (simp flip: of_int_abs)
  have b0: "0 \<le> b"
  proof (rule ccontr)
    assume "\<not> 0 \<le> b"
    then have "b + 1 \<le> 0" by simp
    then have "pow2 (b + 1) \<le> pow2 0" by (rule pow2_mono)
    then have "pow2 (b + 1) \<le> 1" by (simp add: pow2_def)
    with binade_bounds(2) [OF False] one show False unfolding b_def by linarith
  qed
  have b52: "b \<le> 52"
  proof (rule ccontr)
    assume "\<not> b \<le> 52"
    then have "53 \<le> b" by simp
    then have "pow2 53 \<le> pow2 b" by (rule pow2_mono)
    moreover have "pow2 53 = 2 ^ 53" by (simp add: pow2_def)
    ultimately show False
      using binade_bounds(1) [OF False] assms(2) unfolding b_def by linarith
  qed
  define n where "n = nat (52 - b)"
  have e: "max (b - 52) (- 1074) = b - 52" using b0 by simp
  have p: "pow2 (b - 52) = 1 / 2 ^ n"
  proof -
    have "pow2 (b - 52) * pow2 (52 - b) = pow2 0"
      using pow2_add [of "b - 52" "52 - b"] by simp
    moreover have "pow2 (52 - b) = 2 ^ n"
      using b52 by (simp add: pow2_def n_def)
    moreover have "pow2 0 = 1" by (simp add: pow2_def)
    ultimately show ?thesis by (simp add: field_simps)
  qed
  have q: "x / pow2 (b - 52) = of_int (k * 2 ^ n)"
    by (simp add: p k)
  have y: "of_int (round_even (x / pow2 (b - 52))) * pow2 (b - 52) = x"
    unfolding q round_even_of_int by (simp add: p k)
  have "\<bar>x\<bar> < pow2 1024"
  proof -
    have "pow2 53 \<le> pow2 1024" by (rule pow2_mono) simp
    moreover have "pow2 53 = 2 ^ 53" by (simp add: pow2_def)
    ultimately show ?thesis using assms(2) by linarith
  qed
  then show ?thesis
    using False by (simp add: fl_def Let_def e y flip: b_def)
qed

text \<open>How \<open>fl\<close> is computed at a value whose binade is known.\<close>

lemma fl_eval:
  assumes "pow2 k \<le> \<bar>x\<bar>" and "\<bar>x\<bar> < pow2 (k + 1)" and "- 1022 \<le> k" and "k \<le> 1022"
  shows "fl x = Fin (of_int (round_even (x / pow2 (k - 52))) * pow2 (k - 52))"
proof -
  have x0: "x \<noteq> 0" using assms(1) pow2_pos [of k] by auto
  have b: "binade x = k" using assms(1,2) by (rule binade_eq)
  have e: "max (k - 52) (- 1074) = k - 52" using assms(3) by simp
  have "pow2 (k + 1) \<le> pow2 1023" using assms(4) by (intro pow2_mono) simp
  then have "\<bar>x\<bar> \<le> pow2 1023" using assms(2) by linarith
  then obtain y where y: "fl x = Fin y" using fl_error by blast
  then show ?thesis
    using x0 by (simp add: fl_def Let_def b e split: if_split_asm)
qed

lemma powers_of_two:
  "(2::real) ^ 30 = 1073741824"
  "(2::real) ^ 45 = 35184372088832"
  "(2::real) ^ 50 = 1125899906842624"
  "(2::real) ^ 52 = 4503599627370496"
  "(2::real) ^ 53 = 9007199254740992"
  "(2::real) ^ 75 = 37778931862957161709568"
  "(2::real) ^ 100 = 1267650600228229401496703205376"
  by simp_all

lemma num_le_Fin [simp]: "num_le (Fin x) (Fin y) = (x \<le> y)"
  by (auto simp add: num_le_def)

lemma num_ge_Fin [simp]: "num_ge (Fin x) (Fin y) = (y \<le> x)"
  by (simp add: num_ge_def)

lemma num_gt_Fin [simp]: "num_gt (Fin x) (Fin y) = (y < x)"
  by (simp add: num_gt_def)

lemma num_sub_Fin: "num_sub (Fin x) (Fin y) = fl (x - y)"
  by (simp add: num_sub_def)

lemma pow2_facts:
  "pow2 1000 * 4 \<le> pow2 1023" "1 \<le> pow2 1023" "0 < pow2 (- 1075)"
  "pow2 (- 1075) = pow2 (- 1000) / 2 ^ 75" "pow2 (- 1075) \<le> 1 / 2 ^ 100"
proof -
  have "pow2 1000 * pow2 2 \<le> pow2 1023"
    unfolding pow2_add [symmetric] by (rule pow2_mono) simp
  then show "pow2 1000 * 4 \<le> pow2 1023" by (simp add: pow2_def)
  have "pow2 0 \<le> pow2 1023" by (rule pow2_mono) simp
  then show "1 \<le> pow2 1023" by (simp add: pow2_def)
  show "0 < pow2 (- 1075)" by (rule pow2_pos)
  have "pow2 (- 1000 + - 75) = pow2 (- 1000) * pow2 (- 75)" by (rule pow2_add)
  moreover have "pow2 (- 75) = 1 / 2 ^ 75" by (simp add: pow2_def)
  ultimately show "pow2 (- 1075) = pow2 (- 1000) / 2 ^ 75" by simp
  have "pow2 (- 1075) \<le> pow2 (- 100)" by (rule pow2_mono) simp
  moreover have "pow2 (- 100) = 1 / 2 ^ 100" by (simp add: pow2_def)
  ultimately show "pow2 (- 1075) \<le> 1 / 2 ^ 100" by simp
qed

text \<open>An integer below \<open>2^53\<close> in magnitude is a double.\<close>

lemma fl_of_int:  assumes "\<bar>k\<bar> < 2 ^ 53"
  shows "fl (of_int k) = Fin (of_int k)"
proof -
  have "\<bar>real_of_int k\<bar> < 2 ^ 53"
    using assms by (simp flip: of_int_abs add: of_int_less_numeral_power_cancel_iff)
  then show ?thesis
    by (intro fl_int) simp_all
qed

section \<open>Properties of the text check\<close>

text \<open>
  C1, as stated, fails: on the text property \<^verbatim>\<open>name\<close> with the operator \<open>GreaterThan\<close>,
  which the text family does not define, \<^verbatim>\<open>checkText\<close> of \<^verbatim>\<open>conditions.ts\<close> returns
  false and raises nothing.
\<close>

theorem C1_counterexample:
  "checkText [''name'' \<mapsto> JStr ''Morning Ride'']
     \<lparr>property = ''name'', operator = GreaterThan, cvalue = JStr ''x''\<rparr> = False"
  by (simp add: checkText_def isNil_def)

text \<open>
  C1, amended: \<^verbatim>\<open>checkText\<close> of \<^verbatim>\<open>conditions.ts\<close> returns false for every operator
  other than \<open>Equal\<close>, \<open>Like\<close> and \<open>NotLike\<close> (it has no branch that raises), and
  \<^verbatim>\<open>checkText\<close> of \<^verbatim>\<open>unnamed/part_001\<close> raises the invalid-operator error for
  \<open>GreaterThan\<close> and \<open>LessThan\<close> on a field that is set.
\<close>

theorem checkText_operators:
  "(operator c \<notin> {Equal, Like, NotLike} \<longrightarrow> checkText a c = False) \<and>
   (\<not> isNil (a (property c)) \<and> operator c \<in> {GreaterThan, LessThan} \<longrightarrow>
      checkText_part001 a c = Inl (InvalidOperator (operator c) (property c)))"
  by (auto simp add: checkText_def checkText_part001_def Let_def)

theorem checkText_operators_witness:
  "LessThan \<notin> {Equal, Like, NotLike} \<and> LessThan \<in> {GreaterThan, LessThan} \<and>
   \<not> isNil ([''name'' \<mapsto> JStr ''Morning Ride''] ''name'') \<and>
   checkText [''name'' \<mapsto> JStr ''Morning Ride'']
     \<lparr>property = ''name'', operator = LessThan, cvalue = JStr ''x''\<rparr> = False \<and>
   checkText_part001 [''name'' \<mapsto> JStr ''Morning Ride'']
     \<lparr>property = ''name'', operator = LessThan, cvalue = JStr ''x''\<rparr>
     = Inl (InvalidOperator LessThan ''name'')"
  using checkText_operators [of "\<lparr>property = ''name'', operator = LessThan, cvalue = JStr ''x''\<rparr>"
      "[''name'' \<mapsto> JStr ''Morning Ride'']"]
  by (simp add: isNil_def)

section \<open>Properties of the equality of numbers\<close>

lemma digit_char_inj:
  assumes "a < 10" and "b < 10" and "digit_char a = digit_char b"
  shows "a = b"
proof -
  have "distinct ''0123456789''" by simp
  moreover have "a < length ''0123456789''" and "b < length ''0123456789''"
    using assms by simp_all
  moreover have "''0123456789'' ! a = ''0123456789'' ! b"
    using assms by (simp add: digit_char_def)
  ultimately show ?thesis
    by (simp only: nth_eq_iff_index_eq)
qed

lemma digit_char_in: "digit_char d \<in> set ''0123456789''"
proof -
  have "d mod 10 < length ''0123456789''" by simp
  then show ?thesis
    unfolding digit_char_def by (rule nth_mem)
qed

lemma digits_not_Nil: "digits n \<noteq> []"
  by (subst digits.simps) simp

lemma digits_set: "set (digits n) \<subseteq> set ''0123456789''"
proof (induction n rule: digits.induct)
  case (1 n)
  show ?case
  proof (cases "n < 10")
    case True
    then have "digits n = [digit_char n]" by (subst digits.simps) simp
    then show ?thesis using digit_char_in [of n] by simp
  next
    case False
    then have "digits n = digits (n div 10) @ [digit_char (n mod 10)]"
      by (subst digits.simps) simp
    then show ?thesis
      using 1 [OF False] digit_char_in [of "n mod 10"] by simp
  qed
qed

lemma digits_inj: "digits n = digits m \<Longrightarrow> n = m"
proof (induction n arbitrary: m rule: digits.induct)
  case (1 n)
  show ?case
  proof (cases "n < 10")
    case True
    then have n: "digits n = [digit_char n]" by (subst digits.simps) simp
    show ?thesis
    proof (cases "m < 10")
      case m: True
      then have "digits m = [digit_char m]" by (subst digits.simps) simp
      with n "1.prems" have "digit_char n = digit_char m" by simp
      with True m show ?thesis by (rule digit_char_inj)
    next
      case False
      then have "digits m = digits (m div 10) @ [digit_char (m mod 10)]"
        by (subst digits.simps) simp
      with n "1.prems" have "digits (m div 10) = []" by simp
      then show ?thesis using digits_not_Nil by blast
    qed
  next
    case False
    then have n: "digits n = digits (n div 10) @ [digit_char (n mod 10)]"
      by (subst digits.simps) simp
    show ?thesis
    proof (cases "m < 10")
      case True
      then have "digits m = [digit_char m]" by (subst digits.simps) simp
      with n "1.prems" have "digits (n div 10) = []" by simp
      then show ?thesis using digits_not_Nil by blast
    next
      case m: False
      then have "digits m = digits (m div 10) @ [digit_char (m mod 10)]"
        by (subst digits.simps) simp
      with n "1.prems" have eq: "digits (n div 10) = digits (m div 10)"
        and d: "digit_char (n mod 10) = digit_char (m mod 10)"
        by simp_all
      from "1.IH" [OF False eq] have q: "n div 10 = m div 10" .
      have r: "n mod 10 = m mod 10"
        using d by (intro digit_char_inj) simp_all
      show ?thesis
        using q r by (metis div_mult_mod_eq)
    qed
  qed
qed

text \<open>The rendering with one decimal of a magnitude \<open>n / 10\<close>.\<close>

lemma fixed_tail_inj:
  assumes "digits (n div 10) @ ''.'' @ [digit_char (n mod 10)]
             = digits (m div 10) @ ''.'' @ [digit_char (m mod 10)]"
  shows "n = m"
proof -
  from assms have eq: "digits (n div 10) = digits (m div 10)"
    and d: "digit_char (n mod 10) = digit_char (m mod 10)"
    by simp_all
  have q: "n div 10 = m div 10" using eq by (rule digits_inj)
  have r: "n mod 10 = m mod 10"
    using d by (intro digit_char_inj) simp_all
  show ?thesis using q r by (metis div_mult_mod_eq)
qed

lemma minus_not_digit:
  "''-'' @ digits k @ r \<noteq> digits k' @ r'"
proof
  assume eq: "''-'' @ digits k @ r = digits k' @ r'"
  obtain c cs where k': "digits k' = c # cs"
    using digits_not_Nil [of k'] by (cases "digits k'") auto
  with eq have "c = CHR ''-''" by simp
  moreover have "c \<in> set ''0123456789''"
    using digits_set [of k'] k' by auto
  ultimately show False by simp
qed

lemma toFixed1_eq_iff:
  assumes "\<bar>a\<bar> < 10 ^ 21" and "\<bar>v\<bar> < 10 ^ 21"
  shows "(toFixed1 (Fin a) = toFixed1 (Fin v))
           = ((a < 0 \<longleftrightarrow> v < 0) \<and> \<lfloor>\<bar>a\<bar> * 10 + 1 / 2\<rfloor> = \<lfloor>\<bar>v\<bar> * 10 + 1 / 2\<rfloor>)"
proof -
  define n where "n = nat \<lfloor>\<bar>a\<bar> * 10 + 1 / 2\<rfloor>"
  define m where "m = nat \<lfloor>\<bar>v\<bar> * 10 + 1 / 2\<rfloor>"
  have fa: "toFixed1 (Fin a)
              = (if a < 0 then ''-'' else '''') @ digits (n div 10) @ ''.'' @ [digit_char (n mod 10)]"
    using assms(1) by (simp add: n_def Let_def)
  have fv: "toFixed1 (Fin v)
              = (if v < 0 then ''-'' else '''') @ digits (m div 10) @ ''.'' @ [digit_char (m mod 10)]"
    using assms(2) by (simp add: m_def Let_def)
  have pos: "0 \<le> \<lfloor>\<bar>a\<bar> * 10 + 1 / 2\<rfloor>" "0 \<le> \<lfloor>\<bar>v\<bar> * 10 + 1 / 2\<rfloor>"
    by simp_all
  have nm: "(n = m) = (\<lfloor>\<bar>a\<bar> * 10 + 1 / 2\<rfloor> = \<lfloor>\<bar>v\<bar> * 10 + 1 / 2\<rfloor>)"
    unfolding n_def m_def using pos by (simp only: nat_eq_iff2) auto
  show ?thesis
  proof (cases "a < 0 \<longleftrightarrow> v < 0")
    case True
    then have "(toFixed1 (Fin a) = toFixed1 (Fin v)) = (n = m)"
      unfolding fa fv using fixed_tail_inj [of n m] by auto
    with True nm show ?thesis by simp
  next
    case False
    then have "toFixed1 (Fin a) \<noteq> toFixed1 (Fin v)"
      unfolding fa fv
      using minus_not_digit [of "n div 10" "''.'' @ [digit_char (n mod 10)]" "m div 10"
          "''.'' @ [digit_char (m mod 10)]"]
        minus_not_digit [of "m div 10" "''.'' @ [digit_char (m mod 10)]" "n div 10"
          "''.'' @ [digit_char (n mod 10)]"]
      by auto
    with False show ?thesis by simp
  qed
qed

text \<open>
  C2, as stated, fails on \<^verbatim>\<open>checkNumber\<close> of \<^verbatim>\<open>conditions.ts\<close>, which compares the
  renderings with one decimal: 100.375 and 100 round to the same integer, and \<open>Equal\<close>
  does not hold.
\<close>

theorem C2_counterexample:
  "checkNumber [''distance'' \<mapsto> JNum 100.375]
     \<lparr>property = ''distance'', operator = Equal, cvalue = JNum 100\<rparr> = Inr False
   \<and> Math_round (Fin 100.375) = Math_round (Fin 100)"
  by (simp add: checkNumber_def isNil_def digits.simps digit_char_def)

text \<open>
  C2, amended: for a numeric field \<open>a\<close> and a condition value that parses to the number
  \<open>v\<close>, \<open>Equal\<close> holds in \<^verbatim>\<open>checkNumber\<close> of \<^verbatim>\<open>unnamed/part_001\<close> iff \<open>a\<close> and \<open>v\<close> round
  to the same integer (a half going up), and in \<^verbatim>\<open>checkNumber\<close> of \<^verbatim>\<open>conditions.ts\<close> iff
  they print the same with one decimal: for magnitudes below \<open>10^21\<close>, iff they agree on
  being negative and their magnitudes round to the same number of tenths. In both, the
  distance 105 does not satisfy \<open>Equal\<close> against 100 (the witness below). Both
  roundings are of the exact values of the doubles, so that nothing is lost in them;
  the value of the condition is rounded once, when \<^verbatim>\<open>parseFloat\<close> reads it.
\<close>

theorem checkNumber_equal:
  assumes "activity (property c) = Some (JNum a)" and "parseFloat (cvalue c) = Fin v"
    and "operator c = Equal"
  shows "checkNumber_part001 activity c = Inr (\<lfloor>a + 1 / 2\<rfloor> = \<lfloor>v + 1 / 2\<rfloor>) \<and>
         (\<bar>a\<bar> < 10 ^ 21 \<and> \<bar>v\<bar> < 10 ^ 21 \<longrightarrow>
            checkNumber activity c
              = Inr ((a < 0 \<longleftrightarrow> v < 0) \<and> \<lfloor>\<bar>a\<bar> * 10 + 1 / 2\<rfloor> = \<lfloor>\<bar>v\<bar> * 10 + 1 / 2\<rfloor>))"
proof (intro conjI impI)
  show "checkNumber_part001 activity c = Inr (\<lfloor>a + 1 / 2\<rfloor> = \<lfloor>v + 1 / 2\<rfloor>)"
    using assms by (simp add: checkNumber_part001_def isNil_def Let_def)
next
  assume "\<bar>a\<bar> < 10 ^ 21 \<and> \<bar>v\<bar> < 10 ^ 21"
  then have "(toFixed1 (Fin a) = toFixed1 (Fin v))
               = ((a < 0 \<longleftrightarrow> v < 0) \<and> \<lfloor>\<bar>a\<bar> * 10 + 1 / 2\<rfloor> = \<lfloor>\<bar>v\<bar> * 10 + 1 / 2\<rfloor>)"
    using toFixed1_eq_iff [of a v] by blast
  then show "checkNumber activity c
               = Inr ((a < 0 \<longleftrightarrow> v < 0) \<and> \<lfloor>\<bar>a\<bar> * 10 + 1 / 2\<rfloor> = \<lfloor>\<bar>v\<bar> * 10 + 1 / 2\<rfloor>)"
    using assms by (simp add: checkNumber_def isNil_def Let_def del: toFixed1.simps)
qed

text \<open>
  The witness: 105 against 100; 100.03125 against 100; and the double nearest to 10.4
  against the string \<^verbatim>\<open>10.35\<close>, which \<^verbatim>\<open>parseFloat\<close> reads as the double just below
  10.35, printed \<^verbatim>\<open>10.3\<close>.
\<close>

theorem checkNumber_equal_witness:
  "[''distance'' \<mapsto> JNum 105] ''distance'' = Some (JNum 105) \<and>
   parseFloat (JNum 100) = Fin 100 \<and> \<bar>105 :: real\<bar> < 10 ^ 21 \<and> \<bar>100 :: real\<bar> < 10 ^ 21 \<and>
   parseFloat (JStr ''10.35'') = Fin (5826532017910579 / 2 ^ 49) \<and>
   checkNumber_part001 [''distance'' \<mapsto> JNum 105]
     \<lparr>property = ''distance'', operator = Equal, cvalue = JNum 100\<rparr> = Inr False \<and>
   checkNumber [''distance'' \<mapsto> JNum 105]
     \<lparr>property = ''distance'', operator = Equal, cvalue = JNum 100\<rparr> = Inr False \<and>
   checkNumber_part001 [''distance'' \<mapsto> JNum 100.03125]
     \<lparr>property = ''distance'', operator = Equal, cvalue = JNum 100\<rparr> = Inr True \<and>
   checkNumber [''distance'' \<mapsto> JNum 100.03125]
     \<lparr>property = ''distance'', operator = Equal, cvalue = JNum 100\<rparr> = Inr True \<and>
   checkNumber_part001 [''distance'' \<mapsto> JNum (5854679515581645 / 2 ^ 49)]
     \<lparr>property = ''distance'', operator = Equal, cvalue = JStr ''10.35''\<rparr> = Inr True \<and>
   checkNumber [''distance'' \<mapsto> JNum (5854679515581645 / 2 ^ 49)]
     \<lparr>property = ''distance'', operator = Equal, cvalue = JStr ''10.35''\<rparr> = Inr False"
proof -
  have p: "parseFloat (JStr ''10.35'') = Fin (5826532017910579 / 2 ^ 49)"
    using fl_eval [of 3 "10.35"]
    by (simp add: parseFloat_str_def read_sign_def is_space_def is_digit_def digits_val_def
        read_exponent_def pow2_def round_even_def)
  show ?thesis
    using p
      checkNumber_equal [of "[''distance'' \<mapsto> JNum 105]"
        "\<lparr>property = ''distance'', operator = Equal, cvalue = JNum 100\<rparr>" 105 100]
      checkNumber_equal [of "[''distance'' \<mapsto> JNum 100.03125]"
        "\<lparr>property = ''distance'', operator = Equal, cvalue = JNum 100\<rparr>" "100.03125" 100]
      checkNumber_equal [of "[''distance'' \<mapsto> JNum (5854679515581645 / 2 ^ 49)]"
        "\<lparr>property = ''distance'', operator = Equal, cvalue = JStr ''10.35''\<rparr>"
        "5854679515581645 / 2 ^ 49" "5826532017910579 / 2 ^ 49"]
    by simp
qed

section \<open>Properties of the windows of numbers\<close>








text \<open>
  The rounded end points on three inputs. The double that \<^verbatim>\<open>64.9\<close> denotes against 59:
  \<^verbatim>\<open>64.9 - 5.9\<close> is a double above 59, and \<open>Like\<close> fails. The double that \<^verbatim>\<open>0.9\<close> denotes
  against 1: \<^verbatim>\<open>0.9 + 0.1\<close> is the double 1, so that \<open>Like\<close> holds in \<^verbatim>\<open>conditions.ts\<close> and
  fails in \<^verbatim>\<open>unnamed/part_001\<close>, whose comparisons are strict.
\<close>

lemma checkNumber_rounded_ends:
  "checkNumber [''distance'' \<mapsto> JNum (2283465748565197 / 2 ^ 45)]
     \<lparr>property = ''distance'', operator = Like, cvalue = JNum 59\<rparr> = Inr False \<and>
   checkNumber [''distance'' \<mapsto> JNum (8106479329266893 / 2 ^ 53)]
     \<lparr>property = ''distance'', operator = Like, cvalue = JNum 1\<rparr> = Inr True \<and>
   checkNumber_part001 [''distance'' \<mapsto> JNum (8106479329266893 / 2 ^ 53)]
     \<lparr>property = ''distance'', operator = Like, cvalue = JNum 1\<rparr> = Inr False"
proof -
  have c: "fl 0.1 = Fin (3602879701896397 / 2 ^ 55)"
    using fl_eval [of "- 4" "0.1"] by (simp add: pow2_def round_even_def)
  have d59: "fl (59 * (3602879701896397 / 2 ^ 55)) = Fin (3321404725185741 / 2 ^ 49)"
    using fl_eval [of 2 "59 * (3602879701896397 / 2 ^ 55)"] by (simp add: pow2_def round_even_def)
  have s59: "fl (2283465748565197 / 2 ^ 45 + 3321404725185741 / 2 ^ 49)
      = Fin (1245526771944653 / 2 ^ 44)"
    using fl_eval [of 6 "2283465748565197 / 2 ^ 45 + 3321404725185741 / 2 ^ 49"]
    by (simp add: pow2_def round_even_def)
  have q59: "fl (2283465748565197 / 2 ^ 45 - 3321404725185741 / 2 ^ 49)
      = Fin (8303511812964353 / 2 ^ 47)"
    using fl_eval [of 5 "2283465748565197 / 2 ^ 45 - 3321404725185741 / 2 ^ 49"]
    by (simp add: pow2_def round_even_def)
  have d1: "fl (3602879701896397 / 2 ^ 55) = Fin (3602879701896397 / 2 ^ 55)"
    using fl_eval [of "- 4" "3602879701896397 / 2 ^ 55"] by (simp add: pow2_def round_even_def)
  have s1: "fl (8106479329266893 / 2 ^ 53 + 3602879701896397 / 2 ^ 55) = Fin 1"
    using fl_eval [of 0 "8106479329266893 / 2 ^ 53 + 3602879701896397 / 2 ^ 55"]
    by (simp add: pow2_def round_even_def)
  have q1: "fl (8106479329266893 / 2 ^ 53 - 3602879701896397 / 2 ^ 55)
      = Fin (3602879701896397 / 2 ^ 52)"
    using fl_eval [of "- 1" "8106479329266893 / 2 ^ 53 - 3602879701896397 / 2 ^ 55"]
    by (simp add: pow2_def round_even_def)
  have a: "checkNumber [''distance'' \<mapsto> JNum (2283465748565197 / 2 ^ 45)]
     \<lparr>property = ''distance'', operator = Like, cvalue = JNum 59\<rparr> = Inr False"
    using c d59 s59 q59 by (simp add: checkNumber_def isNil_def num_sub_Fin)
  have b: "checkNumber [''distance'' \<mapsto> JNum (8106479329266893 / 2 ^ 53)]
     \<lparr>property = ''distance'', operator = Like, cvalue = JNum 1\<rparr> = Inr True"
    using c d1 s1 q1 by (simp add: checkNumber_def isNil_def num_sub_Fin)
  have e: "checkNumber_part001 [''distance'' \<mapsto> JNum (8106479329266893 / 2 ^ 53)]
     \<lparr>property = ''distance'', operator = Like, cvalue = JNum 1\<rparr> = Inr False"
    using c d1 s1 q1 by (simp add: checkNumber_part001_def isNil_def num_sub_Fin)
  show ?thesis
    using a b e by blast
qed

section \<open>Properties of the timestamp check\<close>

lemma seconds_of_day:
  "second_of ms + minute_of ms * 60 + hour_of ms * 3600 = (ms div 1000) mod 86400"
proof -
  have m: "ms div 60000 = (ms div 1000) div 60"
    by (simp add: div_mult2_eq [symmetric])
  have h: "ms div 3600000 = (ms div 1000) div 3600"
    by (simp add: div_mult2_eq [symmetric])
  have a: "(ms div 1000) mod 86400 = 3600 * ((ms div 1000) div 3600 mod 24) + (ms div 1000) mod 3600"
    using zmod_zmult2_eq [of 24 "ms div 1000" 3600] by simp
  have b: "(ms div 1000) mod 3600 = 60 * ((ms div 1000) div 60 mod 60) + (ms div 1000) mod 60"
    using zmod_zmult2_eq [of 60 "ms div 1000" 60] by simp
  show ?thesis
    unfolding second_of_def minute_of_def hour_of_def m h a b by simp
qed

lemma js_trunc_of_int [simp]: "js_trunc (of_int k) = k"
  by (simp add: js_trunc_def)

text \<open>
  Adding \<open>m\<close> whole minutes to a date: exact, when the product and the sum are doubles and
  the sum is a time value.
\<close>

lemma add_minutes_int:
  assumes "\<bar>m * 60000\<bar> < 2 ^ 53" and "\<bar>d + m * 60000\<bar> \<le> 8640000000000000"
  shows "add_minutes d (of_int m) = Some (d + m * 60000)"
proof -
  have p: "fl (of_int (m * 60000)) = Fin (of_int (m * 60000))"
    using assms(1) by (rule fl_of_int)
  have "\<bar>d + m * 60000\<bar> < 2 ^ 53"
    using assms(2) by simp
  then have s: "fl (of_int (d + m * 60000)) = Fin (of_int (d + m * 60000))"
    by (rule fl_of_int)
  have b: "\<bar>real_of_int (d + m * 60000)\<bar> \<le> 8640000000000000"
    using assms(2) by (simp flip: of_int_abs add: of_int_le_numeral_iff)
  have "num_mul (Fin (of_int m)) (Fin 60000) = Fin (of_int (m * 60000))"
    using p by simp
  moreover have "num_add (Fin (of_int d)) (Fin (of_int (m * 60000))) = Fin (of_int (d + m * 60000))"
    using s by simp
  ultimately show ?thesis
    using b unfolding add_minutes_def by (simp del: of_int_add of_int_mult)
qed

text \<open>The buffer around an integer value below \<open>2^52\<close> in magnitude: both ends are exact.\<close>

lemma within_buffer_int:
  assumes "\<bar>k\<bar> < 2 ^ 52" and "0 \<le> b" and "b \<le> 1800"
  shows "within_buffer (Fin (of_int t)) (Fin (of_int k)) (of_int b) = (\<bar>t - k\<bar> \<le> b)"
proof -
  have "\<bar>k - b\<bar> < 2 ^ 53" "\<bar>k + b\<bar> < 2 ^ 53"
    using assms by simp_all
  then have "fl (of_int (k - b)) = Fin (of_int (k - b))" "fl (of_int (k + b)) = Fin (of_int (k + b))"
    by (simp_all only: fl_of_int)
  then have "num_sub (Fin (of_int k)) (Fin (of_int b)) = Fin (of_int (k - b))"
    "num_add (Fin (of_int k)) (Fin (of_int b)) = Fin (of_int (k + b))"
    by (simp_all add: num_sub_Fin)
  then show ?thesis
    unfolding within_buffer_def by (auto simp del: of_int_add of_int_diff)
qed

text \<open>
  C4, as stated, fails on \<^verbatim>\<open>checkTimestamp\<close> of \<^verbatim>\<open>conditions.ts\<close>, whose buffer for
  \<open>Equal\<close> is 60 seconds: a start at 08:01:40 (28900 seconds after midnight) is within
  120 seconds of 28800 and does not satisfy \<open>Equal\<close> against it.
\<close>

theorem C4_counterexample:
  "clock_time [''dateStart'' \<mapsto> JDate 1681459300000] ''dateStart'' = Inr (Fin 28900) \<and>
   \<bar>28900 - 28800 :: int\<bar> \<le> 120 \<and>
   checkTimestamp [''dateStart'' \<mapsto> JDate 1681459300000]
     \<lparr>property = ''dateStart'', operator = Equal, cvalue = JNum 28800\<rparr> = Inr False"
proof -
  have "fl (real_of_int 28740) = Fin (real_of_int 28740)" "fl (real_of_int 28860) = Fin (real_of_int 28860)"
    by (rule fl_of_int, simp)+
  then have "fl 28740 = Fin 28740" "fl 28860 = Fin 28860"
    by simp_all
  then show ?thesis
    by (simp add: checkTimestamp_def clock_time_def isNil_def second_of_def minute_of_def hour_of_def
        within_buffer_def num_sub_Fin js_trunc_def)
qed

text \<open>
  C4, amended. On a clock-time field (its name neither starts with \<^verbatim>\<open>pace\<close> nor contains
  \<^verbatim>\<open>Time\<close>) holding the date \<open>d\<close> (milliseconds since the epoch), let \<open>t\<close> be the seconds
  since midnight of \<open>d\<close> in UTC, and for the field \<^verbatim>\<open>dateStart\<close>, and only for it, of \<open>d\<close>
  moved by the \<open>m\<close> minutes of \<^verbatim>\<open>utcStartOffset\<close> (\<open>m = 0\<close> when the offset is not set):
  the local time of day for \<^verbatim>\<open>dateStart\<close>, the time of day in UTC for every other field.
  Then \<open>Equal\<close> against a value that parses to the integer \<open>k\<close> holds iff \<open>t\<close> is within 60
  seconds of \<open>k\<close> in \<^verbatim>\<open>checkTimestamp\<close> of \<^verbatim>\<open>conditions.ts\<close>, and iff \<open>t\<close> is within 120
  seconds of \<open>k\<close> in \<^verbatim>\<open>checkTimestamp\<close> of \<^verbatim>\<open>unnamed/part_001\<close>. In both, a start at
  08:01:00 satisfies \<open>Equal\<close> against 28860 and against 28800 and not against 25200 (the
  witness below).
\<close>

theorem checkTimestamp_equal:
  assumes "\<not> prefix ''pace'' (property c)" and "\<not> str_includes (property c) ''Time''"
    and "operator c = Equal"
    and "activity (property c) = Some (JDate d)"
    and "property c = ''dateStart'' \<Longrightarrow>
           (activity ''utcStartOffset'' = None \<and> m = 0 \<or>
            activity ''utcStartOffset'' = Some (JNum (of_int m)))
           \<and> \<bar>m * 60000\<bar> < 2 ^ 53 \<and> \<bar>d + m * 60000\<bar> \<le> 8640000000000000"
    and "parseInt (cvalue c) = Fin (of_int k)" and "\<bar>k\<bar> < 2 ^ 52"
    and "t = (if property c = ''dateStart'' then ((d + m * 60000) div 1000) mod 86400
              else (d div 1000) mod 86400)"
  shows "checkTimestamp activity c = Inr (\<bar>t - k\<bar> \<le> 60) \<and>
         checkTimestamp_part001 activity c = Inr (\<bar>t - k\<bar> \<le> 120)"
proof -
  have ct: "clock_time activity (property c) = Inr (Fin (of_int t))"
  proof (cases "property c = ''dateStart''")
    case False
    then show ?thesis
      using assms(4,8) by (simp add: clock_time_def seconds_of_day del: of_int_add of_int_mult)
  next
    case True
    note o = assms(5) [OF True]
    show ?thesis
    proof (cases "m = 0")
      case True
      then have "\<not> truthy (activity ''utcStartOffset'')"
        using o by auto
      then show ?thesis
        using assms(4,8) True \<open>property c = ''dateStart''\<close>
        by (simp add: clock_time_def seconds_of_day del: of_int_add of_int_mult)
    next
      case False
      then have off: "activity ''utcStartOffset'' = Some (JNum (of_int m))"
        using o by auto
      have "add_minutes d (of_int m) = Some (d + m * 60000)"
        using o by (intro add_minutes_int) simp_all
      then show ?thesis
        using assms(4,8) False off \<open>property c = ''dateStart''\<close>
        by (simp add: clock_time_def seconds_of_day del: of_int_add of_int_mult)
    qed
  qed
  have w: "within_buffer (Fin (of_int t)) (Fin (of_int k)) 60 = (\<bar>t - k\<bar> \<le> 60)"
    "within_buffer (Fin (of_int t)) (Fin (of_int k)) 120 = (\<bar>t - k\<bar> \<le> 120)"
    using within_buffer_int [OF assms(7), of 60 t] within_buffer_int [OF assms(7), of 120 t]
    by simp_all
  show ?thesis
    using assms(1-4,6) ct w
    by (simp add: checkTimestamp_def checkTimestamp_part001_def isNil_def)
qed

theorem checkTimestamp_equal_witness:
  "\<not> prefix ''pace'' ''dateStart'' \<and> \<not> str_includes ''dateStart'' ''Time'' \<and>
   \<bar>0 * 60000 :: int\<bar> < 2 ^ 53 \<and> \<bar>1681459260000 + 0 * 60000 :: int\<bar> \<le> 8640000000000000 \<and>
   \<bar>120 * 60000 :: int\<bar> < 2 ^ 53 \<and> \<bar>1681452060000 + 120 * 60000 :: int\<bar> \<le> 8640000000000000 \<and>
   parseInt (JNum 28860) = Fin (of_int 28860) \<and> parseInt (JNum 28800) = Fin (of_int 28800) \<and>
   parseInt (JNum 25200) = Fin (of_int 25200) \<and>
   ((1681459260000 + 0 * 60000) div 1000) mod 86400 = (28860 :: int) \<and>
   ((1681452060000 + 120 * 60000) div 1000) mod 86400 = (28860 :: int) \<and>
   (1681452060000 div 1000) mod 86400 = (21660 :: int) \<and>
   checkTimestamp [''dateStart'' \<mapsto> JDate 1681459260000]
     \<lparr>property = ''dateStart'', operator = Equal, cvalue = JNum 28860\<rparr> = Inr True \<and>
   checkTimestamp_part001 [''dateStart'' \<mapsto> JDate 1681459260000]
     \<lparr>property = ''dateStart'', operator = Equal, cvalue = JNum 28860\<rparr> = Inr True \<and>
   checkTimestamp [''dateStart'' \<mapsto> JDate 1681459260000]
     \<lparr>property = ''dateStart'', operator = Equal, cvalue = JNum 28800\<rparr> = Inr True \<and>
   checkTimestamp_part001 [''dateStart'' \<mapsto> JDate 1681459260000]
     \<lparr>property = ''dateStart'', operator = Equal, cvalue = JNum 28800\<rparr> = Inr True \<and>
   checkTimestamp [''dateStart'' \<mapsto> JDate 1681459260000]
     \<lparr>property = ''dateStart'', operator = Equal, cvalue = JNum 25200\<rparr> = Inr False \<and>
   checkTimestamp_part001 [''dateStart'' \<mapsto> JDate 1681459260000]
     \<lparr>property = ''dateStart'', operator = Equal, cvalue = JNum 25200\<rparr> = Inr False \<and>
   checkTimestamp [''dateStart'' \<mapsto> JDate 1681452060000, ''utcStartOffset'' \<mapsto> JNum 120]
     \<lparr>property = ''dateStart'', operator = Equal, cvalue = JNum 28800\<rparr> = Inr True \<and>
   checkTimestamp_part001 [''dateStart'' \<mapsto> JDate 1681452060000, ''utcStartOffset'' \<mapsto> JNum 120]
     \<lparr>property = ''dateStart'', operator = Equal, cvalue = JNum 28800\<rparr> = Inr True \<and>
   checkTimestamp [''dateEnd'' \<mapsto> JDate 1681452060000, ''utcStartOffset'' \<mapsto> JNum 120]
     \<lparr>property = ''dateEnd'', operator = Equal, cvalue = JNum 28800\<rparr> = Inr False \<and>
   checkTimestamp_part001 [''dateEnd'' \<mapsto> JDate 1681452060000, ''utcStartOffset'' \<mapsto> JNum 120]
     \<lparr>property = ''dateEnd'', operator = Equal, cvalue = JNum 28800\<rparr> = Inr False"
proof -
  have p: "\<not> prefix ''pace'' ''dateStart''" "\<not> str_includes ''dateStart'' ''Time''"
    "\<not> prefix ''pace'' ''dateEnd''" "\<not> str_includes ''dateEnd'' ''Time''"
    by simp_all
  have v: "parseInt (JNum 28860) = Fin (of_int 28860)" "parseInt (JNum 28800) = Fin (of_int 28800)"
    "parseInt (JNum 25200) = Fin (of_int 25200)"
    by (simp_all add: js_trunc_def)
  have n: "\<bar>0 * 60000 :: int\<bar> < 2 ^ 53" "\<bar>1681459260000 + 0 * 60000 :: int\<bar> \<le> 8640000000000000"
    "\<bar>120 * 60000 :: int\<bar> < 2 ^ 53" "\<bar>1681452060000 + 120 * 60000 :: int\<bar> \<le> 8640000000000000"
    "\<bar>28860 :: int\<bar> < 2 ^ 52" "\<bar>28800 :: int\<bar> < 2 ^ 52" "\<bar>25200 :: int\<bar> < 2 ^ 52"
    by simp_all
  have t: "((1681459260000 + 0 * 60000) div 1000) mod 86400 = (28860 :: int)"
    "((1681452060000 + 120 * 60000) div 1000) mod 86400 = (28860 :: int)"
    "(1681452060000 div 1000) mod 86400 = (21660 :: int)"
    by simp_all
  have a: "checkTimestamp [''dateStart'' \<mapsto> JDate 1681459260000]
      \<lparr>property = ''dateStart'', operator = Equal, cvalue = JNum 28860\<rparr> = Inr (\<bar>28860 - 28860 :: int\<bar> \<le> 60) \<and>
    checkTimestamp_part001 [''dateStart'' \<mapsto> JDate 1681459260000]
      \<lparr>property = ''dateStart'', operator = Equal, cvalue = JNum 28860\<rparr> = Inr (\<bar>28860 - 28860 :: int\<bar> \<le> 120)"
    by (rule checkTimestamp_equal [where d = 1681459260000 and m = 0]) (simp_all add: js_trunc_def)
  have b: "checkTimestamp [''dateStart'' \<mapsto> JDate 1681459260000]
      \<lparr>property = ''dateStart'', operator = Equal, cvalue = JNum 28800\<rparr> = Inr (\<bar>28860 - 28800 :: int\<bar> \<le> 60) \<and>
    checkTimestamp_part001 [''dateStart'' \<mapsto> JDate 1681459260000]
      \<lparr>property = ''dateStart'', operator = Equal, cvalue = JNum 28800\<rparr> = Inr (\<bar>28860 - 28800 :: int\<bar> \<le> 120)"
    by (rule checkTimestamp_equal [where d = 1681459260000 and m = 0]) (simp_all add: js_trunc_def)
  have c: "checkTimestamp [''dateStart'' \<mapsto> JDate 1681459260000]
      \<lparr>property = ''dateStart'', operator = Equal, cvalue = JNum 25200\<rparr> = Inr (\<bar>28860 - 25200 :: int\<bar> \<le> 60) \<and>
    checkTimestamp_part001 [''dateStart'' \<mapsto> JDate 1681459260000]
      \<lparr>property = ''dateStart'', operator = Equal, cvalue = JNum 25200\<rparr> = Inr (\<bar>28860 - 25200 :: int\<bar> \<le> 120)"
    by (rule checkTimestamp_equal [where d = 1681459260000 and m = 0]) (simp_all add: js_trunc_def)
  have d: "checkTimestamp [''dateStart'' \<mapsto> JDate 1681452060000, ''utcStartOffset'' \<mapsto> JNum 120]
      \<lparr>property = ''dateStart'', operator = Equal, cvalue = JNum 28800\<rparr> = Inr (\<bar>28860 - 28800 :: int\<bar> \<le> 60) \<and>
    checkTimestamp_part001 [''dateStart'' \<mapsto> JDate 1681452060000, ''utcStartOffset'' \<mapsto> JNum 120]
      \<lparr>property = ''dateStart'', operator = Equal, cvalue = JNum 28800\<rparr> = Inr (\<bar>28860 - 28800 :: int\<bar> \<le> 120)"
    by (rule checkTimestamp_equal [where d = 1681452060000 and m = 120]) (simp_all add: js_trunc_def)
  have e: "checkTimestamp [''dateEnd'' \<mapsto> JDate 1681452060000, ''utcStartOffset'' \<mapsto> JNum 120]
      \<lparr>property = ''dateEnd'', operator = Equal, cvalue = JNum 28800\<rparr> = Inr (\<bar>21660 - 28800 :: int\<bar> \<le> 60) \<and>
    checkTimestamp_part001 [''dateEnd'' \<mapsto> JDate 1681452060000, ''utcStartOffset'' \<mapsto> JNum 120]
      \<lparr>property = ''dateEnd'', operator = Equal, cvalue = JNum 28800\<rparr> = Inr (\<bar>21660 - 28800 :: int\<bar> \<le> 120)"
    by (rule checkTimestamp_equal [where d = 1681452060000 and m = 120]) (simp_all add: js_trunc_def)
  show ?thesis
    using p v n t a b c d e by simp
qed

section \<open>Properties of the music check\<close>

lemma str_includes_refl: "str_includes t t"
  by (cases t) simp_all

text \<open>
  C5 against the code. For a user with a linked account and the one track \<^verbatim>\<open>Song A\<close>,
  C5 says that \<open>Like\<close> against \<^verbatim>\<open>zzz\<close> does not hold (no title contains it) and that
  \<open>NotLike\<close> against \<^verbatim>\<open>zzz\<close> holds. \<^verbatim>\<open>checkSpotify\<close> tests every title against itself
  (\<^verbatim>\<open>t.includes(t)\<close>), so \<open>Like\<close> holds and \<open>NotLike\<close> does not; only \<open>Equal\<close>
  compares with the value.
\<close>

theorem C5_failing_input:
  "\<not> str_includes (toLowerCase ''Song A'') (toLowerCase ''zzz'') \<and>
   checkSpotify \<lparr>spotify = Some (JObj []), dateLastActivity = None, dateRegistered = None\<rparr>
     (Some [\<lparr>title = ''Song A''\<rparr>])
     \<lparr>property = ''spotify.track'', operator = Like, cvalue = JStr ''zzz''\<rparr> = True \<and>
   checkSpotify \<lparr>spotify = Some (JObj []), dateLastActivity = None, dateRegistered = None\<rparr>
     (Some [\<lparr>title = ''Song A''\<rparr>])
     \<lparr>property = ''spotify.track'', operator = NotLike, cvalue = JStr ''zzz''\<rparr> = False \<and>
   checkSpotify \<lparr>spotify = Some (JObj []), dateLastActivity = None, dateRegistered = None\<rparr>
     (Some [\<lparr>title = ''Song A''\<rparr>])
     \<lparr>property = ''spotify.track'', operator = Equal, cvalue = JStr ''SONG a''\<rparr> = True"
  by (simp add: checkSpotify_def toLowerCase_def lower_char_def)

text \<open>
  The defect in general: with an account and at least one track, \<open>Like\<close> holds and
  \<open>NotLike\<close> fails whatever the value of the condition is.
\<close>

lemma checkSpotify_ignores_value:
  assumes "truthy (spotify user)" and "tracks \<noteq> []"
  shows "(operator c = Like \<longrightarrow> checkSpotify user (Some tracks) c) \<and>
         (operator c = NotLike \<longrightarrow> \<not> checkSpotify user (Some tracks) c)"
  using assms by (simp add: checkSpotify_def str_includes_refl Let_def)

section \<open>Properties of the weather check\<close>

text \<open>
  C6 against the code. For an activity with location data and a fetched summary whose
  start has the temperature \<^verbatim>\<open>22C\<close> and whose end is missing, C6 says that \<open>Equal\<close>
  against 22 holds. \<^verbatim>\<open>checkWeather\<close> of \<^verbatim>\<open>conditions.ts\<close> throws before its loop, and
  \<^verbatim>\<open>checkWeather\<close> of \<^verbatim>\<open>unnamed/part_001\<close>, which reads the attribute inside the loop,
  returns true.
\<close>

theorem C6_failing_input:
  "checkWeather (Some \<lparr>w_start = Some [''temperature'' \<mapsto> JStr ''22C''], w_end = None\<rparr>)
     [''hasLocation'' \<mapsto> JBool True]
     \<lparr>property = ''weather.temperature'', operator = Equal, cvalue = JNum 22\<rparr> = Inl TypeError \<and>
   checkWeather_part001 (Some \<lparr>w_start = Some [''temperature'' \<mapsto> JStr ''22C''], w_end = None\<rparr>)
     [''hasLocation'' \<mapsto> JBool True]
     \<lparr>property = ''weather.temperature'', operator = Equal, cvalue = JNum 22\<rparr> = True"
  by (simp add: checkWeather_def checkWeather_part001_def weatherProp_of_def isNil_def
      weather_value_def strip_non_numeric_def isNaN_str_def is_digit_def parseFloat_str_def
      read_sign_def is_space_def digits_val_def read_exponent_def js_trunc_def fl_int)

text \<open>
  The defect in general: \<^verbatim>\<open>checkWeather\<close> of \<^verbatim>\<open>conditions.ts\<close> returns no verdict for any
  activity with location data once a summary was fetched.
\<close>

lemma checkWeather_always_throws:
  assumes "truthy (activity ''hasLocation'')"
  shows "checkWeather (Some ws) activity c = Inl TypeError"
  using assms by (simp add: checkWeather_def)

section \<open>Properties of the check of the first activity of the day\<close>

lemma first_among_day_returns:
  assumes "firstOfDay_typed getActivities activity"
  shows "\<exists>b. first_among_day getActivities now activityDate activity sameSport = Inr b"
proof -
  define query where "query =
    (if dayOfYear now \<noteq> dayOfYear activityDate
     then \<lparr>q_after = startOf_day activityDate, q_before = None\<rparr>
            \<lparr>q_before := Some (endOf_day activityDate)\<rparr>
     else \<lparr>q_after = startOf_day activityDate, q_before = None\<rparr>)"
  define filtered where "filtered =
    (if sameSport then filter_sport activity (getActivities query) else getActivities query)"
  have sub: "set filtered \<subseteq> set (getActivities query)"
    by (auto simp add: filtered_def filter_sport_def)
  have typed: "\<forall>a \<in> set filtered. has_date a \<and> (\<exists>n. a ''id'' = Some (JNum n))"
    using assms sub unfolding firstOfDay_typed_def by blast
  then have dates: "list_all has_date filtered"
    by (simp add: list_all_iff)
  obtain n where n: "activity ''id'' = Some (JNum n)"
    using assms unfolding firstOfDay_typed_def by blast
  have sorted: "sortBy_dateStart filtered = Inr (sort_key date_key filtered)"
    using dates by (simp add: sortBy_dateStart_def)
  have "first_among_day getActivities now activityDate activity sameSport =
      (case sortBy_dateStart filtered of
         Inl e \<Rightarrow> Inl e
       | Inr activities \<Rightarrow>
           if length activities = 0 then Inr True
           else loose_eq (hd activities ''id'') (activity ''id''))"
    unfolding first_among_day_def Let_def filtered_def query_def ..
  then have unfold: "first_among_day getActivities now activityDate activity sameSport =
      (if length (sort_key date_key filtered) = 0 then Inr True
       else loose_eq (hd (sort_key date_key filtered) ''id'') (activity ''id''))"
    unfolding sorted by simp
  show ?thesis
  proof (cases "filtered = []")
    case True
    then show ?thesis unfolding unfold by auto
  next
    case False
    then have "sort_key date_key filtered \<noteq> []"
      using set_sort [of date_key filtered] by (auto simp del: set_sort)
    then have "hd (sort_key date_key filtered) \<in> set (sort_key date_key filtered)"
      by (rule hd_in_set)
    then have "hd (sort_key date_key filtered) \<in> set filtered"
      by simp
    with typed obtain k where "hd (sort_key date_key filtered) ''id'' = Some (JNum k)"
      by blast
    with n False show ?thesis
      unfolding unfold by (auto simp add: loose_eq_def isNil_def)
  qed
qed

text \<open>
  C10: with the operator \<open>Equal\<close> and the value \<^verbatim>\<open>false\<close>, \<^verbatim>\<open>checkFirstOfDay\<close> returns
  false, whatever the dates, the history and \<open>sameSport\<close> are.
\<close>

theorem checkFirstOfDay_equal_false:
  assumes "operator c = Equal" and "cvalue c = JBool False"
    and "firstOfDay_typed getActivities activity"
  shows "checkFirstOfDay getActivities now user activity c sameSport = Inr False"
proof -
  obtain activityDate where d: "dayjs_of now (activity ''dateStart'') = Inr activityDate"
    using assms(3) by (auto simp add: firstOfDay_typed_def dayjs_of_def)
  obtain b where b: "first_among_day getActivities now activityDate activity sameSport = Inr b"
    using first_among_day_returns [OF assms(3)] by blast
  show ?thesis
    using assms(1,2) d b by (simp add: checkFirstOfDay_def Let_def)
qed

theorem checkFirstOfDay_equal_false_witness:
  "firstOfDay_typed
     (\<lambda>q. [[''dateStart'' \<mapsto> JDate 1681462800000, ''id'' \<mapsto> JNum 2],
           [''dateStart'' \<mapsto> JDate 1681459260000, ''id'' \<mapsto> JNum 1]])
     [''dateStart'' \<mapsto> JDate 1681459260000, ''id'' \<mapsto> JNum 1] \<and>
   checkFirstOfDay
     (\<lambda>q. [[''dateStart'' \<mapsto> JDate 1681462800000, ''id'' \<mapsto> JNum 2],
           [''dateStart'' \<mapsto> JDate 1681459260000, ''id'' \<mapsto> JNum 1]])
     1681466400000
     \<lparr>spotify = None, dateLastActivity = Some 1681462800000, dateRegistered = None\<rparr>
     [''dateStart'' \<mapsto> JDate 1681459260000, ''id'' \<mapsto> JNum 1]
     \<lparr>property = ''firstOfDay'', operator = Equal, cvalue = JBool False\<rparr> False = Inr False \<and>
   checkFirstOfDay
     (\<lambda>q. [[''dateStart'' \<mapsto> JDate 1681462800000, ''id'' \<mapsto> JNum 2],
           [''dateStart'' \<mapsto> JDate 1681459260000, ''id'' \<mapsto> JNum 1]])
     1681466400000
     \<lparr>spotify = None, dateLastActivity = Some 1681462800000, dateRegistered = None\<rparr>
     [''dateStart'' \<mapsto> JDate 1681459260000, ''id'' \<mapsto> JNum 1]
     \<lparr>property = ''firstOfDay'', operator = Equal, cvalue = JBool True\<rparr> False = Inr True"
proof -
  let ?history = "\<lambda>q :: StravaActivityQuery.
    [[''dateStart'' \<mapsto> JDate 1681462800000, ''id'' \<mapsto> JNum 2],
     [''dateStart'' \<mapsto> JDate 1681459260000, ''id'' \<mapsto> JNum 1]]"
  let ?activity = "[''dateStart'' \<mapsto> JDate 1681459260000, ''id'' \<mapsto> JNum 1]"
  let ?user = "\<lparr>spotify = None, dateLastActivity = Some 1681462800000, dateRegistered = None\<rparr>"
  have t: "firstOfDay_typed ?history ?activity"
    by (simp add: firstOfDay_typed_def has_date_def)
  have y: "year_and_day 1681459260000 = (2023, 104)" "year_and_day 1681462800000 = (2023, 104)"
    "year_and_day 1681466400000 = (2023, 104)"
    by code_simp+
  have first: "checkFirstOfDay ?history 1681466400000 ?user ?activity
     \<lparr>property = ''firstOfDay'', operator = Equal, cvalue = JBool True\<rparr> False = Inr True"
    using y
    by (simp add: checkFirstOfDay_def dayjs_of_def dayOfYear_def year_of_def first_among_day_def
        sortBy_dateStart_def has_date_def date_key_def loose_eq_def isNil_def)
  show ?thesis
    using t first
      checkFirstOfDay_equal_false [of
        "\<lparr>property = ''firstOfDay'', operator = Equal, cvalue = JBool False\<rparr>" ?history
        ?activity 1681466400000 ?user False]
    by simp
qed

section \<open>Properties of the location check\<close>



lemma in_box_undefined: "\<not> in_box (NaN, NaN) cLat cLong radius"
  by (simp add: in_box_def num_le_def)

lemma radius_of_cases:
  assumes "(op, r) \<in> {(Equal, 0.000556), (Approximate, 0.002735), (Like, 0.005926)}"
  shows "radius_of op = fl r \<and> radius_part001 op prop = Inr (fl r)"
    and "1 / 2000 \<le> r \<and> r \<le> 1"
  using assms by (elim insertE emptyE; clarify; simp add: radius_of_def radius_part001_def)+

text \<open>
  One side of the box in doubles: the radius, the sum and the difference are rounded, and
  for a target of at most 180 degrees the ends are within \<open>2^-45\<close> of the exact ones.
\<close>

lemma box_side:
  fixes c r rd U L x t :: real
  assumes "\<bar>c\<bar> \<le> 180" and "1 / 2000 \<le> r" and "r \<le> 1" and "0 \<le> t" and "t \<le> 1 / 2 ^ 100"
    and "\<bar>rd - r\<bar> \<le> \<bar>r\<bar> / 2 ^ 53 + t"
    and "\<bar>U - (c + rd)\<bar> \<le> \<bar>c + rd\<bar> / 2 ^ 53 + t"
    and "\<bar>L - (c - rd)\<bar> \<le> \<bar>c - rd\<bar> / 2 ^ 53 + t"
  shows "\<bar>x - c\<bar> \<le> r - 1 / 2 ^ 45 \<Longrightarrow> L \<le> x \<and> x \<le> U"
    and "r + 1 / 2 ^ 45 < \<bar>x - c\<bar> \<Longrightarrow> \<not> (L \<le> x \<and> x \<le> U)"
proof -
  note h = assms [unfolded powers_of_two]
  have rd: "r - r / 9007199254740992 - t \<le> rd" "rd \<le> r + r / 9007199254740992 + t"
    using h(2,6) by argo+
  have rd2: "0 \<le> rd" "rd \<le> 2"
    using rd h(2-5) by argo+
  have b: "\<bar>c + rd\<bar> \<le> 182" "\<bar>c - rd\<bar> \<le> 182"
    using rd2 h(1) by argo+
  have U: "\<bar>U - (c + rd)\<bar> \<le> 182 / 9007199254740992 + t"
    using h(7) b(1) by argo
  have L: "\<bar>L - (c - rd)\<bar> \<le> 182 / 9007199254740992 + t"
    using h(8) b(2) by argo
  show "L \<le> x \<and> x \<le> U" if "\<bar>x - c\<bar> \<le> r - 1 / 2 ^ 45"
    using that U L rd h(2-5) unfolding powers_of_two by argo
  show "\<not> (L \<le> x \<and> x \<le> U)" if "r + 1 / 2 ^ 45 < \<bar>x - c\<bar>"
    using that U L rd h(2-5) unfolding powers_of_two by argo
qed

lemma in_box_double:
  assumes "\<bar>cLat\<bar> \<le> 180" and "\<bar>cLong\<bar> \<le> 180" and "1 / 2000 \<le> r" and "r \<le> 1"
  shows "\<bar>lat - cLat\<bar> \<le> r - 1 / 2 ^ 45 \<and> \<bar>long - cLong\<bar> \<le> r - 1 / 2 ^ 45
           \<Longrightarrow> in_box (Fin lat, Fin long) (Fin cLat) (Fin cLong) (fl r)"
    and "r + 1 / 2 ^ 45 < \<bar>lat - cLat\<bar> \<or> r + 1 / 2 ^ 45 < \<bar>long - cLong\<bar>
           \<Longrightarrow> \<not> in_box (Fin lat, Fin long) (Fin cLat) (Fin cLong) (fl r)"
proof -
  define t where "t = pow2 (- 1075)"
  have t: "0 \<le> t" "t \<le> 1 / 2 ^ 100"
    using pow2_facts(3,5) by (simp_all add: t_def)
  have "pow2 10 \<le> pow2 1023" by (rule pow2_mono) simp
  then have big: "1024 \<le> pow2 1023" by (simp add: pow2_def)
  have "\<bar>r\<bar> \<le> pow2 1023" using assms(3,4) big by argo
  then obtain rd where rd: "fl r = Fin rd" and er: "\<bar>rd - r\<bar> \<le> \<bar>r\<bar> / 2 ^ 53 + t"
    using fl_error [of r] unfolding t_def by blast
  have rd2: "\<bar>rd\<bar> \<le> 2"
    using er assms(3,4) t unfolding powers_of_two by argo
  have "\<bar>cLat + rd\<bar> \<le> pow2 1023" "\<bar>cLat - rd\<bar> \<le> pow2 1023"
    "\<bar>cLong + rd\<bar> \<le> pow2 1023" "\<bar>cLong - rd\<bar> \<le> pow2 1023"
    using rd2 assms(1,2) big by argo+
  then obtain U L U' L' where
    U: "fl (cLat + rd) = Fin U" and eU: "\<bar>U - (cLat + rd)\<bar> \<le> \<bar>cLat + rd\<bar> / 2 ^ 53 + t" and
    L: "fl (cLat - rd) = Fin L" and eL: "\<bar>L - (cLat - rd)\<bar> \<le> \<bar>cLat - rd\<bar> / 2 ^ 53 + t" and
    U': "fl (cLong + rd) = Fin U'" and eU': "\<bar>U' - (cLong + rd)\<bar> \<le> \<bar>cLong + rd\<bar> / 2 ^ 53 + t" and
    L': "fl (cLong - rd) = Fin L'" and eL': "\<bar>L' - (cLong - rd)\<bar> \<le> \<bar>cLong - rd\<bar> / 2 ^ 53 + t"
    using fl_error [of "cLat + rd"] fl_error [of "cLat - rd"]
      fl_error [of "cLong + rd"] fl_error [of "cLong - rd"] unfolding t_def by blast
  have box: "in_box (Fin lat, Fin long) (Fin cLat) (Fin cLong) (fl r)
      = ((L \<le> lat \<and> lat \<le> U) \<and> (L' \<le> long \<and> long \<le> U'))"
    using rd U L U' L' by (auto simp add: in_box_def num_sub_Fin)
  note lat = box_side [OF assms(1,3,4) t er eU eL, of lat]
  note long = box_side [OF assms(2,3,4) t er eU' eL', of long]
  show "in_box (Fin lat, Fin long) (Fin cLat) (Fin cLong) (fl r)"
    if "\<bar>lat - cLat\<bar> \<le> r - 1 / 2 ^ 45 \<and> \<bar>long - cLong\<bar> \<le> r - 1 / 2 ^ 45"
    unfolding box using that lat(1) long(1) by blast
  show "\<not> in_box (Fin lat, Fin long) (Fin cLat) (Fin cLong) (fl r)"
    if "r + 1 / 2 ^ 45 < \<bar>lat - cLat\<bar> \<or> r + 1 / 2 ^ 45 < \<bar>long - cLong\<bar>"
    unfolding box using that lat(2) long(2) by blast
qed

lemma target_45_7:
  "parseFloat_at (split CHR '','' (toString (JStr ''45.0,7.0''))) 0 = Fin 45"
  "parseFloat_at (split CHR '','' (toString (JStr ''45.0,7.0''))) 1 = Fin 7"
  by (simp_all add: parseFloat_at_def parseFloat_str_def read_sign_def is_space_def is_digit_def
      digits_val_def read_exponent_def fl_int)




text \<open>
  The rounded edge of the box on the target \<^verbatim>\<open>8.7,7.0\<close>: \<^verbatim>\<open>8.7 + 0.000556\<close> is a double
  below the one that \<^verbatim>\<open>8.700556\<close> denotes, and a start at that latitude fails \<open>Equal\<close>.
\<close>

lemma checkLocation_rounded_edge:
  "checkLocation (\<lambda>s. []) [''locationStart'' \<mapsto> JArr [JNum (4897977594939517 / 2 ^ 49), JNum 7]]
     \<lparr>property = ''locationStart'', operator = Equal, cvalue = JStr ''8.7,7.0''\<rparr> = Inr False \<and>
   checkLocation_part001 (\<lambda>s. [])
     [''locationStart'' \<mapsto> JArr [JNum (4897977594939517 / 2 ^ 49), JNum 7]]
     \<lparr>property = ''locationStart'', operator = Equal, cvalue = JStr ''8.7,7.0''\<rparr> = Inr False"
proof -
  have t: "parseFloat_at (split CHR '','' (toString (JStr ''8.7,7.0''))) 0
      = Fin (2448832297382707 / 2 ^ 48)"
    using fl_eval [of 3 "8.7"]
    by (simp add: parseFloat_at_def parseFloat_str_def read_sign_def is_space_def is_digit_def
        digits_val_def read_exponent_def pow2_def round_even_def)
  have t': "parseFloat_at (split CHR '','' (toString (JStr ''8.7,7.0''))) 1 = Fin 7"
    by (simp add: parseFloat_at_def parseFloat_str_def read_sign_def is_space_def is_digit_def
        digits_val_def read_exponent_def fl_int)
  have r: "fl 0.000556 = Fin (5128194852491255 / 2 ^ 63)"
    using fl_eval [of "- 11" "0.000556"] by (simp add: pow2_def round_even_def)
  have u: "fl (2448832297382707 / 2 ^ 48 + 5128194852491255 / 2 ^ 63)
      = Fin (1224494398734879 / 2 ^ 47)"
    using fl_eval [of 3 "2448832297382707 / 2 ^ 48 + 5128194852491255 / 2 ^ 63"]
    by (simp add: pow2_def round_even_def)
  have box: "\<not> in_box (Fin (4897977594939517 / 2 ^ 49), Fin 7)
      (Fin (2448832297382707 / 2 ^ 48)) (Fin 7) (fl 0.000556)"
    using r u by (simp add: in_box_def)
  have a: "checkLocation (\<lambda>s. [])
      [''locationStart'' \<mapsto> JArr [JNum (4897977594939517 / 2 ^ 49), JNum 7]]
      \<lparr>property = ''locationStart'', operator = Equal, cvalue = JStr ''8.7,7.0''\<rparr> = Inr False"
    using box t t'
    by (simp add: checkLocation_def isNil_def single_point_def coord_def radius_of_def
        del: toString.simps)
  have b: "checkLocation_part001 (\<lambda>s. [])
      [''locationStart'' \<mapsto> JArr [JNum (4897977594939517 / 2 ^ 49), JNum 7]]
      \<lparr>property = ''locationStart'', operator = Equal, cvalue = JStr ''8.7,7.0''\<rparr> = Inr False"
    using box t t'
    by (simp add: checkLocation_part001_def candidates_part001_def length_of_def single_point_def
        coord_def radius_part001_def del: toString.simps)
  show ?thesis
    using a b by blast
qed

text \<open>
  C7, as stated, fails on \<^verbatim>\<open>checkLocation\<close> of \<^verbatim>\<open>conditions.ts\<close>, which has no
  fallback: with an empty \<^verbatim>\<open>locationEnd\<close> and a polyline whose last point is the target,
  the check returns false.
\<close>

theorem C7_counterexample:
  "last ((\<lambda>s. [(1, 2), (45, 7)]) ''abc'') = (45 :: real, 7 :: real) \<and>
   checkLocation (\<lambda>s. [(1, 2), (45, 7)])
     [''locationEnd'' \<mapsto> JArr [], ''polyline'' \<mapsto> JStr ''abc'']
     \<lparr>property = ''locationEnd'', operator = Equal, cvalue = JStr ''45.0,7.0''\<rparr> = Inr False"
  by (simp add: checkLocation_def isNil_def single_point_def coord_def in_box_undefined Let_def
      del: toString.simps)

text \<open>
  C7, amended: for a condition on \<^verbatim>\<open>locationEnd\<close> with one of the three operators, where
  the field is an empty array and the polyline is set and decodes to at least one point,
  \<^verbatim>\<open>checkLocation\<close> of \<^verbatim>\<open>unnamed/part_001\<close> evaluates the last point of the decoded
  polyline: its verdict is the test of the box on that point, which is true when the point
  lies in the square of half-width \<open>r - 2^-45\<close> around a target of at most 180 degrees, and
  false when it lies outside the square of half-width \<open>r + 2^-45\<close>. \<^verbatim>\<open>checkLocation\<close> of
  \<^verbatim>\<open>conditions.ts\<close> has no fallback and returns false there.
\<close>

theorem checkLocation_end_fallback:
  assumes "property c = ''locationEnd''" and "activity ''locationEnd'' = Some (JArr [])"
    and "activity ''polyline'' = Some (JStr s)" and "s \<noteq> []" and "decode s \<noteq> []"
    and "(operator c, r) \<in> {(Equal, 0.000556), (Approximate, 0.002735), (Like, 0.005926)}"
    and "last (decode s) = (x, y)"
  shows "checkLocation_part001 decode activity c
           = Inr (in_box (Fin x, Fin y)
                    (parseFloat_at (split CHR '','' (toString (cvalue c))) 0)
                    (parseFloat_at (split CHR '','' (toString (cvalue c))) 1)
                    (radius_of (operator c))) \<and>
         (parseFloat_at (split CHR '','' (toString (cvalue c))) 0 = Fin cLat \<and>
          parseFloat_at (split CHR '','' (toString (cvalue c))) 1 = Fin cLong \<and>
          \<bar>cLat\<bar> \<le> 180 \<and> \<bar>cLong\<bar> \<le> 180 \<longrightarrow>
            (\<bar>x - cLat\<bar> \<le> r - 1 / 2 ^ 45 \<and> \<bar>y - cLong\<bar> \<le> r - 1 / 2 ^ 45 \<longrightarrow>
               checkLocation_part001 decode activity c = Inr True) \<and>
            (r + 1 / 2 ^ 45 < \<bar>x - cLat\<bar> \<or> r + 1 / 2 ^ 45 < \<bar>y - cLong\<bar> \<longrightarrow>
               checkLocation_part001 decode activity c = Inr False)) \<and>
         checkLocation decode activity c = Inr False"
proof -
  note rad = radius_of_cases [OF assms(6)]
  have cands: "candidates_part001 decode activity (property c) = Inr (Some [Some (Fin x, Fin y)])"
    using assms(1-5,7)
    by (simp add: candidates_part001_def length_of_def last_point_def)
  have a: "checkLocation_part001 decode activity c
           = Inr (in_box (Fin x, Fin y)
                    (parseFloat_at (split CHR '','' (toString (cvalue c))) 0)
                    (parseFloat_at (split CHR '','' (toString (cvalue c))) 1)
                    (radius_of (operator c)))"
    using assms(1,2) rad(1) cands
    by (simp add: checkLocation_part001_def Let_def)
  have b: "checkLocation decode activity c = Inr False"
    using assms(1,2)
    by (simp add: checkLocation_def isNil_def single_point_def coord_def in_box_undefined Let_def)
  have m: "(\<bar>x - cLat\<bar> \<le> r - 1 / 2 ^ 45 \<and> \<bar>y - cLong\<bar> \<le> r - 1 / 2 ^ 45 \<longrightarrow>
               checkLocation_part001 decode activity c = Inr True) \<and>
            (r + 1 / 2 ^ 45 < \<bar>x - cLat\<bar> \<or> r + 1 / 2 ^ 45 < \<bar>y - cLong\<bar> \<longrightarrow>
               checkLocation_part001 decode activity c = Inr False)"
    if t: "parseFloat_at (split CHR '','' (toString (cvalue c))) 0 = Fin cLat"
      "parseFloat_at (split CHR '','' (toString (cvalue c))) 1 = Fin cLong"
      and l: "\<bar>cLat\<bar> \<le> 180" "\<bar>cLong\<bar> \<le> 180"
  proof -
    note inner = in_box_double(1) [OF l rad(2) [THEN conjunct1] rad(2) [THEN conjunct2]]
    note outer = in_box_double(2) [OF l rad(2) [THEN conjunct1] rad(2) [THEN conjunct2]]
    show ?thesis
      unfolding a t rad(1) [THEN conjunct1] using inner [of x y] outer [of x y] by simp
  qed
  show ?thesis
    using a b m by blast
qed

theorem checkLocation_end_fallback_witness:
  "[''locationEnd'' \<mapsto> JArr [], ''polyline'' \<mapsto> JStr ''abc''] ''locationEnd'' = Some (JArr []) \<and>
   [''locationEnd'' \<mapsto> JArr [], ''polyline'' \<mapsto> JStr ''abc''] ''polyline'' = Some (JStr ''abc'') \<and>
   ''abc'' \<noteq> [] \<and> (\<lambda>s. [(1, 2), (45, 7 :: real)]) ''abc'' \<noteq> ([] :: (real \<times> real) list) \<and>
   (Equal, 0.000556) \<in> {(Equal, 0.000556 :: real), (Approximate, 0.002735), (Like, 0.005926)} \<and>
   last ((\<lambda>s. [(1, 2), (45, 7)]) ''abc'') = (45 :: real, 7 :: real) \<and>
   parseFloat_at (split CHR '','' (toString (JStr ''45.0,7.0''))) 0 = Fin 45 \<and>
   parseFloat_at (split CHR '','' (toString (JStr ''45.0,7.0''))) 1 = Fin 7 \<and>
   checkLocation_part001 (\<lambda>s. [(1, 2), (45, 7)])
     [''locationEnd'' \<mapsto> JArr [], ''polyline'' \<mapsto> JStr ''abc'']
     \<lparr>property = ''locationEnd'', operator = Equal, cvalue = JStr ''45.0,7.0''\<rparr> = Inr True \<and>
   checkLocation (\<lambda>s. [(1, 2), (45, 7)])
     [''locationEnd'' \<mapsto> JArr [], ''polyline'' \<mapsto> JStr ''abc'']
     \<lparr>property = ''locationEnd'', operator = Equal, cvalue = JStr ''45.0,7.0''\<rparr> = Inr False"
proof -
  have e: "(Equal, 0.000556) \<in> {(Equal, 0.000556 :: real), (Approximate, 0.002735), (Like, 0.005926)}"
    by simp
  have h: "[''locationEnd'' \<mapsto> JArr [], ''polyline'' \<mapsto> JStr ''abc''] ''locationEnd'' = Some (JArr [])"
    "[''locationEnd'' \<mapsto> JArr [], ''polyline'' \<mapsto> JStr ''abc''] ''polyline'' = Some (JStr ''abc'')"
    "''abc'' \<noteq> []" "(\<lambda>s. [(1, 2), (45, 7 :: real)]) ''abc'' \<noteq> ([] :: (real \<times> real) list)"
    "last ((\<lambda>s. [(1, 2), (45, 7)]) ''abc'') = (45 :: real, 7 :: real)"
    by simp_all
  note t = target_45_7
  have w: "checkLocation_part001 (\<lambda>s. [(1, 2), (45, 7)])
     [''locationEnd'' \<mapsto> JArr [], ''polyline'' \<mapsto> JStr ''abc'']
     \<lparr>property = ''locationEnd'', operator = Equal, cvalue = JStr ''45.0,7.0''\<rparr> = Inr True \<and>
   checkLocation (\<lambda>s. [(1, 2), (45, 7)])
     [''locationEnd'' \<mapsto> JArr [], ''polyline'' \<mapsto> JStr ''abc'']
     \<lparr>property = ''locationEnd'', operator = Equal, cvalue = JStr ''45.0,7.0''\<rparr> = Inr False"
    using t
      checkLocation_end_fallback [of
        "\<lparr>property = ''locationEnd'', operator = Equal, cvalue = JStr ''45.0,7.0''\<rparr>"
        "[''locationEnd'' \<mapsto> JArr [], ''polyline'' \<mapsto> JStr ''abc'']" "''abc''"
        "\<lambda>s. [(1, 2), (45, 7)]" "0.000556" 45 7 45 7, unfolded RecipeCondition.simps,
        OF refl h(1,2,3,4) e h(5), THEN conjunct2]
    by (simp del: toString.simps)
  show ?thesis
    using e h t w by blast
qed

section \<open>Properties of the sport type and gear checks\<close>

lemma split_no_sep: "sep \<notin> set s \<Longrightarrow> split sep s = [s]"
  by (induction s) auto

text \<open>
  C9, as stated, fails on \<^verbatim>\<open>checkSportType\<close> of \<^verbatim>\<open>unnamed/part_001\<close>, which knows
  only \<open>Equal\<close>: for the sport \<^verbatim>\<open>Ride\<close>, which is not in the list \<^verbatim>\<open>Run\<close>, \<open>NotEqual\<close>
  does not hold but raises.
\<close>

theorem C9_counterexample:
  "checkSportType_part001 [''sportType'' \<mapsto> JStr ''Ride'']
     \<lparr>property = ''sportType'', operator = NotEqual, cvalue = JStr ''Run''\<rparr>
     = Inl (InvalidOperator NotEqual ''sportType'')"
  by (simp add: checkSportType_part001_def)

text \<open>
  C9, amended. In \<^verbatim>\<open>checkSportType\<close> and \<^verbatim>\<open>checkGear\<close> of \<^verbatim>\<open>conditions.ts\<close>, for an
  activity with the sport type \<open>s\<close> (the gear identifier \<open>g\<close>), \<open>Equal\<close> holds iff it
  is a member of the comma-separated list and \<open>NotEqual\<close> iff it is not; \<open>NotEqual\<close>
  holds for an activity without the attribute; every other operator gives false, and
  nothing is raised. In \<^verbatim>\<open>checkSportType\<close> of \<^verbatim>\<open>unnamed/part_001\<close>, \<open>Equal\<close> holds iff
  the sport type (one without a comma) is a member of the list, and every other
  operator, \<open>NotEqual\<close> included, raises for an activity that has a sport type.
\<close>

theorem checkSportType_checkGear_lists:
  "(activity ''sportType'' = Some (JStr s) \<and> s \<noteq> [] \<longrightarrow>
      (operator c = Equal \<longrightarrow>
         checkSportType activity c = (s \<in> set (split CHR '','' (toString (cvalue c))))) \<and>
      (operator c = NotEqual \<longrightarrow>
         checkSportType activity c = (s \<notin> set (split CHR '','' (toString (cvalue c))))) \<and>
      (operator c = Equal \<and> CHR '','' \<notin> set s \<longrightarrow>
         checkSportType_part001 activity c
           = Inr (s \<in> set (split CHR '','' (toString (cvalue c)))))) \<and>
   (activity ''gear'' = Some (JObj kvs) \<and> map_of kvs ''id'' = Some (JStr g) \<and> g \<noteq> [] \<longrightarrow>
      (operator c = Equal \<longrightarrow>
         checkGear activity c = (g \<in> set (split CHR '','' (toString (cvalue c))))) \<and>
      (operator c = NotEqual \<longrightarrow>
         checkGear activity c = (g \<notin> set (split CHR '','' (toString (cvalue c)))))) \<and>
   (operator c = NotEqual \<and> \<not> truthy (activity ''sportType'') \<longrightarrow> checkSportType activity c) \<and>
   (operator c = NotEqual \<and> \<not> truthy (activity ''gear'') \<longrightarrow> checkGear activity c) \<and>
   (operator c \<notin> {Equal, NotEqual} \<longrightarrow> \<not> checkSportType activity c \<and> \<not> checkGear activity c) \<and>
   (operator c \<noteq> Equal \<and> truthy (activity ''sportType'') \<longrightarrow>
      checkSportType_part001 activity c = Inl (InvalidOperator (operator c) (property c)))"
proof (intro conjI impI)
  assume a: "activity ''sportType'' = Some (JStr s) \<and> s \<noteq> []"
  show "checkSportType activity c = (s \<in> set (split CHR '','' (toString (cvalue c))))"
    if "operator c = Equal"
    using a that by (simp add: checkSportType_def arr_includes_def Let_def)
  show "checkSportType activity c = (s \<notin> set (split CHR '','' (toString (cvalue c))))"
    if "operator c = NotEqual"
    using a that by (simp add: checkSportType_def arr_includes_def Let_def)
  show "checkSportType_part001 activity c = Inr (s \<in> set (split CHR '','' (toString (cvalue c))))"
    if "operator c = Equal \<and> CHR '','' \<notin> set s"
  proof -
    have "toString (cvalue c) = s \<Longrightarrow> s \<in> set (split CHR '','' (toString (cvalue c)))"
      using that split_no_sep [of "CHR '',''" s] by simp
    then show ?thesis
      using a that by (auto simp add: checkSportType_part001_def arr_includes_def Let_def)
  qed
next
  assume a: "activity ''gear'' = Some (JObj kvs) \<and> map_of kvs ''id'' = Some (JStr g) \<and> g \<noteq> []"
  show "checkGear activity c = (g \<in> set (split CHR '','' (toString (cvalue c))))"
    if "operator c = Equal"
    using a that
    by (simp add: checkGear_def gear_id_def arr_includes_val_def arr_includes_def Let_def)
  show "checkGear activity c = (g \<notin> set (split CHR '','' (toString (cvalue c))))"
    if "operator c = NotEqual"
    using a that
    by (simp add: checkGear_def gear_id_def arr_includes_val_def arr_includes_def Let_def)
next
  assume "operator c = NotEqual \<and> \<not> truthy (activity ''sportType'')"
  then show "checkSportType activity c"
    by (simp add: checkSportType_def Let_def)
next
  assume "operator c = NotEqual \<and> \<not> truthy (activity ''gear'')"
  then show "checkGear activity c"
    by (simp add: checkGear_def gear_id_def Let_def)
next
  assume "operator c \<notin> {Equal, NotEqual}"
  then show "\<not> checkSportType activity c" and "\<not> checkGear activity c"
    by (simp_all add: checkSportType_def checkGear_def Let_def)
next
  assume "operator c \<noteq> Equal \<and> truthy (activity ''sportType'')"
  then show "checkSportType_part001 activity c = Inl (InvalidOperator (operator c) (property c))"
    by (simp add: checkSportType_part001_def Let_def)
qed

theorem checkSportType_checkGear_lists_witness:
  "checkSportType [''sportType'' \<mapsto> JStr ''Ride'']
     \<lparr>property = ''sportType'', operator = Equal, cvalue = JStr ''Run,Ride''\<rparr> \<and>
   checkSportType_part001 [''sportType'' \<mapsto> JStr ''Ride'']
     \<lparr>property = ''sportType'', operator = Equal, cvalue = JStr ''Run,Ride''\<rparr> = Inr True \<and>
   checkSportType [''sportType'' \<mapsto> JStr ''Ride'']
     \<lparr>property = ''sportType'', operator = NotEqual, cvalue = JStr ''Run,Hike''\<rparr> \<and>
   checkSportType_part001 [''sportType'' \<mapsto> JStr ''Ride'']
     \<lparr>property = ''sportType'', operator = NotEqual, cvalue = JStr ''Run,Hike''\<rparr>
     = Inl (InvalidOperator NotEqual ''sportType'') \<and>
   checkGear [''gear'' \<mapsto> JObj [(''id'', JStr ''b1'')]]
     \<lparr>property = ''gear'', operator = Equal, cvalue = JStr ''b2,b1''\<rparr> \<and>
   \<not> checkGear [''gear'' \<mapsto> JObj [(''id'', JStr ''b1'')]]
     \<lparr>property = ''gear'', operator = NotEqual, cvalue = JStr ''b2,b1''\<rparr> \<and>
   checkSportType Map.empty
     \<lparr>property = ''sportType'', operator = NotEqual, cvalue = JStr ''Run,Hike''\<rparr> \<and>
   checkGear Map.empty
     \<lparr>property = ''gear'', operator = NotEqual, cvalue = JStr ''b2,b1''\<rparr> \<and>
   \<not> checkSportType [''sportType'' \<mapsto> JStr ''Ride'']
     \<lparr>property = ''sportType'', operator = Like, cvalue = JStr ''Run,Ride''\<rparr> \<and>
   \<not> checkGear [''gear'' \<mapsto> JObj [(''id'', JStr ''b1'')]]
     \<lparr>property = ''gear'', operator = Like, cvalue = JStr ''b2,b1''\<rparr>"
  using
    checkSportType_checkGear_lists [where activity = "[''sportType'' \<mapsto> JStr ''Ride'']"
      and s = "''Ride''" and kvs = "[]" and g = "''b1''"
      and c = "\<lparr>property = ''sportType'', operator = Equal, cvalue = JStr ''Run,Ride''\<rparr>"]
    checkSportType_checkGear_lists [where activity = "[''sportType'' \<mapsto> JStr ''Ride'']"
      and s = "''Ride''" and kvs = "[]" and g = "''b1''"
      and c = "\<lparr>property = ''sportType'', operator = NotEqual, cvalue = JStr ''Run,Hike''\<rparr>"]
    checkSportType_checkGear_lists [where activity = "[''gear'' \<mapsto> JObj [(''id'', JStr ''b1'')]]"
      and s = "''Ride''" and kvs = "[(''id'', JStr ''b1'')]" and g = "''b1''"
      and c = "\<lparr>property = ''gear'', operator = Equal, cvalue = JStr ''b2,b1''\<rparr>"]
    checkSportType_checkGear_lists [where activity = "[''gear'' \<mapsto> JObj [(''id'', JStr ''b1'')]]"
      and s = "''Ride''" and kvs = "[(''id'', JStr ''b1'')]" and g = "''b1''"
      and c = "\<lparr>property = ''gear'', operator = NotEqual, cvalue = JStr ''b2,b1''\<rparr>"]
    checkSportType_checkGear_lists [where activity = "Map.empty"
      and s = "''Ride''" and kvs = "[]" and g = "''b1''"
      and c = "\<lparr>property = ''sportType'', operator = NotEqual, cvalue = JStr ''Run,Hike''\<rparr>"]
    checkSportType_checkGear_lists [where activity = "Map.empty"
      and s = "''Ride''" and kvs = "[]" and g = "''b1''"
      and c = "\<lparr>property = ''gear'', operator = NotEqual, cvalue = JStr ''b2,b1''\<rparr>"]
    checkSportType_checkGear_lists [where activity = "[''sportType'' \<mapsto> JStr ''Ride'']"
      and s = "''Ride''" and kvs = "[]" and g = "''b1''"
      and c = "\<lparr>property = ''sportType'', operator = Like, cvalue = JStr ''Run,Ride''\<rparr>"]
    checkSportType_checkGear_lists [where activity = "[''gear'' \<mapsto> JObj [(''id'', JStr ''b1'')]]"
      and s = "''Ride''" and kvs = "[(''id'', JStr ''b1'')]" and g = "''b1''"
      and c = "\<lparr>property = ''gear'', operator = Like, cvalue = JStr ''b2,b1''\<rparr>"]
  by simp

end
